theory Spec2Isabelle
  imports Complex_Main
begin

section \<open>Python values and exceptions\<close>

text \<open>
  The exceptions the modelled code can raise. A function that may raise returns
  \<open>pyerr + 'a\<close>, with \<open>Inl\<close> for the exception.
\<close>

datatype pyerr =
    IndexError
  | KeyError string
  | TypeError
  | ValueError
  | RuntimeError
  | UnboundLocalError
  | AttributeError
  | UnicodeDecodeError

text \<open>
  How a call ends: it returns a value, it raises, or it never comes back (a loop or a wait
  that the modelled part of the environment does not end). Each outcome carries the state
  of the object at that point.
\<close>

datatype ('a, 's) outcome = Return 'a 's | Raise pyerr 's | Hang 's

text \<open>
  The Python values the code handles: what \<open>json\<close> decodes to (None, bool, int, float,
  str, list, dict with string keys), tuples, and bound methods (the object's number and
  the method's name). Floats are rationals here; NaN and the infinities are left out.
  A dict is the list of its items in insertion order, with distinct keys.
\<close>

datatype pyval =
    PNone
  | PBool bool
  | PInt int
  | PFloat rat
  | PStr string
  | PTuple "pyval list"
  | PList "pyval list"
  | PDict "(string \<times> pyval) list"
  | PMethod nat string

text \<open>\<open>bool(x)\<close>, which \<open>if x\<close> and \<open>not x\<close> use.\<close>

fun truthy :: "pyval \<Rightarrow> bool" where
  "truthy PNone = False"
| "truthy (PBool b) = b"
| "truthy (PInt i) = (i \<noteq> 0)"
| "truthy (PFloat r) = (r \<noteq> 0)"
| "truthy (PStr s) = (s \<noteq> [])"
| "truthy (PTuple xs) = (xs \<noteq> [])"
| "truthy (PList xs) = (xs \<noteq> [])"
| "truthy (PDict kvs) = (kvs \<noteq> [])"
| "truthy (PMethod i m) = True"

text \<open>
  \<open>x in xs\<close> for a list \<open>xs\<close>: equality with some element. On tuples of ints and
  strings Python's \<open>==\<close> is structural equality.
\<close>

definition py_in :: "pyval \<Rightarrow> pyval list \<Rightarrow> bool" where
  "py_in x xs = (x \<in> set xs)"

definition is_substring :: "string \<Rightarrow> string \<Rightarrow> bool" where
  "is_substring s t = list_ex (\<lambda>n. take (length s) (drop n t) = s) [0..<Suc (length t)]"

text \<open>
  \<open>key in x\<close> for a string \<open>key\<close>: a key of a dict, an element of a list or tuple, a
  substring of a string; TypeError on a value that is not iterable.
\<close>

fun py_contains :: "string \<Rightarrow> pyval \<Rightarrow> pyerr + bool" where
  "py_contains key (PDict kvs) = Inr (key \<in> set (map fst kvs))"
| "py_contains key (PList xs) = Inr (PStr key \<in> set xs)"
| "py_contains key (PTuple xs) = Inr (PStr key \<in> set xs)"
| "py_contains key (PStr s) = Inr (is_substring key s)"
| "py_contains key _ = Inl TypeError"

text \<open>
  \<open>x[key]\<close> for a string \<open>key\<close>: the value of a dict or KeyError; TypeError on every
  other value (lists, tuples and strings take integer indices only).
\<close>

fun py_getitem :: "pyval \<Rightarrow> string \<Rightarrow> pyerr + pyval" where
  "py_getitem (PDict kvs) key =
     (case map_of kvs key of None \<Rightarrow> Inl (KeyError key) | Some v \<Rightarrow> Inr v)"
| "py_getitem _ key = Inl TypeError"

text \<open>\<open>d[key] = v\<close> and \<open>d.update(e)\<close> on the items of a dict.\<close>

fun dict_set :: "'k \<Rightarrow> 'v \<Rightarrow> ('k \<times> 'v) list \<Rightarrow> ('k \<times> 'v) list" where
  "dict_set k v [] = [(k, v)]"
| "dict_set k v ((k', v') # kvs) = (if k' = k then (k, v) # kvs else (k', v') # dict_set k v kvs)"

fun dict_update :: "('k \<times> 'v) list \<Rightarrow> ('k \<times> 'v) list \<Rightarrow> ('k \<times> 'v) list" where
  "dict_update d [] = d"
| "dict_update d ((k, v) # kvs) = dict_update (dict_set k v d) kvs"

section \<open>client.py: the transport\<close>

subsection \<open>Addresses\<close>

text \<open>
  \<open>socket.getaddrinfo\<close> returns 5-tuples \<open>(family, type, proto, canonname, sockaddr)\<close>;
  \<open>sockaddr\<close> is a 2-tuple \<open>(ip, port)\<close> for IPv4 and a 4-tuple
  \<open>(ip, port, flowinfo, scope_id)\<close> for IPv6.
\<close>

datatype sockaddr = Sockaddr4 string int | Sockaddr6 string int int int

record addrinfo =
  ai_family :: int
  ai_socktype :: int
  ai_proto :: int
  ai_cname :: string
  ai_sockaddr :: sockaddr

fun pv_sockaddr :: "sockaddr \<Rightarrow> pyval" where
  "pv_sockaddr (Sockaddr4 ip port) = PTuple [PStr ip, PInt port]"
| "pv_sockaddr (Sockaddr6 ip port flow scope) = PTuple [PStr ip, PInt port, PInt flow, PInt scope]"

definition pv_addrinfo :: "addrinfo \<Rightarrow> pyval" where
  "pv_addrinfo a = PTuple [PInt (ai_family a), PInt (ai_socktype a), PInt (ai_proto a),
                           PStr (ai_cname a), pv_sockaddr (ai_sockaddr a)]"

subsection \<open>The Client object and its socket\<close>

text \<open>
  What the socket does is the environment of the model, written as two scripts that the
  methods consume from the front. One entry of the read script answers one pass of the
  loop of \<open>receive\<close>: \<open>check('readable')\<close> is False (nothing pending, or \<open>select\<close>
  raised, which \<open>check\<close> turns into False), or the socket is readable and \<open>recv\<close> raises,
  or \<open>recv\<close> returns bytes: bytes that decode as UTF-8 to the given text (no bytes for the
  empty text), or bytes that do not decode. One entry of the write script answers one pass
  of the loop of \<open>send\<close>: \<open>check('writable')\<close> is False, or \<open>socket.send\<close> raises, or it
  accepts a number of bytes.
\<close>

datatype rx = RxQuiet | RxError | RxChunk string | RxBadChunk

datatype tx = TxBlocked | TxError | TxAccept nat

text \<open>
  The attributes of \<open>Client\<close> that the modelled methods read or write.
  \<open>c_socket\<close> is \<open>None\<close> while the attribute \<open>_socket\<close> was never assigned,
  \<open>Some True\<close> for a socket with an open descriptor and \<open>Some False\<close> for a closed one
  (\<open>fileno() == -1\<close>). \<open>c_selected\<close> holds \<open>_family, _socktype, _proto, _cname, _sockaddr\<close>,
  which \<open>create\<close> assigns together from one address tuple; \<open>_ip_address\<close> and the port
  are read off the sockaddr for the log only. \<open>c_wire\<close> collects the bytes the socket
  accepted and \<open>c_sleeps\<close> counts the calls of \<open>time.sleep\<close>.
\<close>

record client =
  c_encrypted :: bool
  c_stream :: bool
  c_bytes_out :: nat
  c_used_addresses :: "sockaddr list"
  c_selected :: "addrinfo option"
  c_socket :: "bool option"
  c_rx :: "rx list"
  c_tx :: "tx list"
  c_wire :: "string list"
  c_sleeps :: nat

subsection \<open>create\<close>

text \<open>
  What the operating system answers to one pass of the loop body of \<open>create\<close>:
  \<open>socket.socket\<close> raises \<open>socket.error\<close>, or the socket is made and
  \<open>wrap_socket\<close> raises \<open>socket.error\<close>, or both succeed. A client that is not encrypted
  does not wrap, so for it the second outcome is a success too. The environment of a call
  is a function from the number of the pass (from 0) and the address tried to this outcome.
\<close>

datatype attempt = SocketError | WrapError | Succeeds

type_synonym sock_env = "nat \<Rightarrow> addrinfo \<Rightarrow> attempt"

text \<open>
  The two \<open>for\<close> loops of \<open>create\<close> append the first address of \<open>avl_addresses\<close> that
  passes their test and \<open>break\<close>. The test compares \<open>address[4]\<close>, a sockaddr tuple, with
  the elements of \<open>tried_addresses\<close>, which are whole address tuples, and with the elements
  of \<open>_used_addresses\<close>, which are sockaddr tuples.
\<close>

definition pick_fresh :: "addrinfo list \<Rightarrow> addrinfo list \<Rightarrow> sockaddr list \<Rightarrow> addrinfo option" where
  "pick_fresh avl tried used =
     find (\<lambda>a. \<not> py_in (pv_sockaddr (ai_sockaddr a)) (map pv_addrinfo tried)
              \<and> \<not> py_in (pv_sockaddr (ai_sockaddr a)) (map pv_sockaddr used)) avl"

definition pick_untried :: "addrinfo list \<Rightarrow> addrinfo list \<Rightarrow> addrinfo option" where
  "pick_untried avl tried =
     find (\<lambda>a. \<not> py_in (pv_sockaddr (ai_sockaddr a)) (map pv_addrinfo tried)) avl"

definition select_address :: "addrinfo list \<Rightarrow> addrinfo list \<Rightarrow> sockaddr list \<Rightarrow> addrinfo list" where
  "select_address avl tried used =
     (case (if length used + length tried < length avl
            then pick_fresh avl tried used
            else pick_untried avl tried) of
        Some a \<Rightarrow> tried @ [a]
      | None \<Rightarrow> tried)"

text \<open>
  The \<open>while\<close> loop of \<open>create\<close>. \<open>k\<close> counts the passes. \<open>tried_addresses[-1]\<close> raises
  IndexError on an empty list. A pass whose socket cannot be made or wrapped goes on with
  the next pass (\<open>continue\<close>); the loop has no other bound than its condition, so the model
  is a partial function: \<open>None\<close> is a loop that never ends. The result carries the return
  value, \<open>tried_addresses\<close> as it was at the return, and the object.
\<close>

partial_function (option) create_loop ::
  "sock_env \<Rightarrow> addrinfo list \<Rightarrow> nat \<Rightarrow> addrinfo list \<Rightarrow> 'a client_scheme
     \<Rightarrow> (pyerr + bool \<times> addrinfo list \<times> 'a client_scheme) option" where
  "create_loop env avl k tried c =
     (if length tried < length avl then
        (let tried' = select_address avl tried (c_used_addresses c) in
         if tried' = [] then Some (Inl IndexError)
         else
           (let a = last tried'; c1 = c\<lparr>c_selected := Some a\<rparr> in
            case env k a of
              SocketError \<Rightarrow> create_loop env avl (Suc k) tried' c1
            | WrapError \<Rightarrow>
                if c_encrypted c
                then create_loop env avl (Suc k) tried' (c1\<lparr>c_socket := Some True\<rparr>)
                else Some (Inr (True, tried',
                       c1\<lparr>c_socket := Some True,
                          c_used_addresses := c_used_addresses c @ [ai_sockaddr a]\<rparr>))
            | Succeeds \<Rightarrow>
                Some (Inr (True, tried',
                       c1\<lparr>c_socket := Some True,
                          c_used_addresses := c_used_addresses c @ [ai_sockaddr a]\<rparr>))))
      else Some (Inr (False, tried, c\<lparr>c_used_addresses := []\<rparr>)))"

declare create_loop.simps [code]

text \<open>
  \<open>create\<close>: \<open>getaddrinfo\<close> either raises \<open>socket.error\<close> (\<open>None\<close>: the method returns
  False at once) or returns the list of addresses.
\<close>

definition create ::
  "addrinfo list option \<Rightarrow> sock_env \<Rightarrow> 'a client_scheme
     \<Rightarrow> (pyerr + bool \<times> addrinfo list \<times> 'a client_scheme) option" where
  "create resolved env c =
     (case resolved of
        None \<Rightarrow> Some (Inr (False, [], c))
      | Some avl \<Rightarrow> create_loop env avl 0 [] c)"

subsection \<open>send\<close>

text \<open>
  The loop of \<open>send\<close>: \<open>sent\<close> is \<open>send_msg\<close>, the number of bytes handed over so far.
  Each pass takes one entry of the write script; the socket accepts at most the
  \<open>package_size\<close> bytes it is given. A script that ends while bytes are left is a loop
  that has not ended.
\<close>

fun send_loop :: "string \<Rightarrow> nat \<Rightarrow> tx list \<Rightarrow> 'a client_scheme \<Rightarrow> (bool, 'a client_scheme) outcome" where
  "send_loop msg sent script c =
     (if sent < length msg then
        (case script of
           [] \<Rightarrow> Hang (c\<lparr>c_tx := []\<rparr>)
         | TxBlocked # rest \<Rightarrow> Return False (c\<lparr>c_tx := rest\<rparr>)
         | TxError # rest \<Rightarrow> Return False (c\<lparr>c_tx := rest\<rparr>)
         | TxAccept n # rest \<Rightarrow>
             (let package_size = min (c_bytes_out c) (length msg - sent);
                  m = min n package_size
              in send_loop msg (sent + m) rest
                   (c\<lparr>c_wire := c_wire c @ [take m (drop sent msg)],
                      c_sleeps := Suc (c_sleeps c)\<rparr>)))
      else Return True (c\<lparr>c_tx := script\<rparr>))"

declare send_loop.simps [simp del]

definition send :: "string \<Rightarrow> 'a client_scheme \<Rightarrow> (bool, 'a client_scheme) outcome" where
  "send msg c = send_loop msg 0 (c_tx c) c"

subsection \<open>receive\<close>

text \<open>
  The loop of \<open>receive\<close>: \<open>full\<close> is \<open>full_msg\<close>. The method returns False
  (\<open>PBool False\<close>) when \<open>recv\<close> raises, and the text otherwise; \<open>decode\<close> stands outside
  the \<open>try\<close>, so bytes that do not decode raise UnicodeDecodeError. In streaming mode the
  loop ends with the first pass that read bytes, otherwise with the first pass that read
  none; every other pass sleeps and goes on.
\<close>

fun receive_loop :: "string \<Rightarrow> rx list \<Rightarrow> 'a client_scheme \<Rightarrow> (pyval, 'a client_scheme) outcome" where
  "receive_loop full [] c = Hang (c\<lparr>c_rx := []\<rparr>)"
| "receive_loop full (RxError # rest) c = Return (PBool False) (c\<lparr>c_rx := rest\<rparr>)"
| "receive_loop full (RxBadChunk # rest) c = Raise UnicodeDecodeError (c\<lparr>c_rx := rest\<rparr>)"
| "receive_loop full (RxQuiet # rest) c =
     (if c_stream c
      then receive_loop full rest (c\<lparr>c_sleeps := Suc (c_sleeps c)\<rparr>)
      else Return (PStr full) (c\<lparr>c_rx := rest\<rparr>))"
| "receive_loop full (RxChunk s # rest) c =
     (if s \<noteq> [] then
        (if c_stream c
         then Return (PStr (full @ s)) (c\<lparr>c_rx := rest\<rparr>)
         else receive_loop (full @ s) rest (c\<lparr>c_sleeps := Suc (c_sleeps c)\<rparr>))
      else
        (if c_stream c
         then receive_loop full rest (c\<lparr>c_sleeps := Suc (c_sleeps c)\<rparr>)
         else Return (PStr full) (c\<lparr>c_rx := rest\<rparr>)))"

definition receive :: "'a client_scheme \<Rightarrow> (pyval, 'a client_scheme) outcome" where
  "receive c = receive_loop [] (c_rx c) c"

subsection \<open>close\<close>

text \<open>
  \<open>close\<close>: an error of \<open>shutdown\<close> is caught and the \<open>finally\<close> block runs in both cases:
  it closes the socket and pops the last used address, which raises IndexError on an empty
  list. Reading \<open>self._socket\<close> raises AttributeError while no socket was ever assigned.
\<close>

definition close :: "'a client_scheme \<Rightarrow> (bool, 'a client_scheme) outcome" where
  "close c =
     (case c_socket c of
        None \<Rightarrow> Raise AttributeError c
      | Some False \<Rightarrow> Return True c
      | Some True \<Rightarrow>
          (if c_used_addresses c = []
           then Raise IndexError (c\<lparr>c_socket := Some False\<rparr>)
           else Return True (c\<lparr>c_socket := Some False,
                               c_used_addresses := butlast (c_used_addresses c)\<rparr>)))"

section \<open>handler.py: the protocol channel\<close>

subsection \<open>The general handler\<close>

text \<open>
  \<open>_GeneralHandler\<close> extends \<open>Client\<close>. \<open>h_decoder\<close> is \<open>self._decoder.raw_decode\<close>
  (\<open>None\<close> for JSONDecodeError) and \<open>h_dumps\<close> is \<open>json.dumps\<close>; both belong to the library.
  \<open>h_ping\<close> is the dict \<open>_ping\<close>: \<open>None\<close> while it has no key \<open>'ping'\<close>, else the flag
  (\<open>_start_ping\<close> stores the flag and the thread together), and \<open>h_ping_ssid\<close> is the
  argument the thread of \<open>_send_ping\<close> was started with. \<open>h_log\<close> records what the
  methods of the handler do, in order: a request handed to \<open>send\<close>, a call of \<open>receive\<close>,
  a call of the reconnect callback, a value printed.
\<close>

datatype event =
    EvRequest "(string \<times> pyval) list"
  | EvReceive
  | EvReconnect
  | EvPrint pyval

record handler = client +
  h_decoder :: "string \<Rightarrow> pyval option"
  h_dumps :: "(string \<times> pyval) list \<Rightarrow> string"
  h_ping :: "bool option"
  h_ping_ssid :: pyval
  h_log :: "event list"

text \<open>
  \<open>_send_request(command, stream, arguments, tag)\<close>. \<open>command\<close> is a string and
  \<open>arguments\<close> is None or a dict with string keys, as the docstring of the method types
  them and as every caller passes them (a dict literal or the keyword dict of the caller);
  \<open>stream\<close> and \<open>tag\<close> are Python values, \<open>PNone\<close> for an omitted one. \<open>request_dict\<close>
  builds \<open>req_dict\<close>. The dict is logged and its \<open>json.dumps\<close> handed to \<open>send\<close>.
\<close>

definition request_dict ::
  "string \<Rightarrow> pyval \<Rightarrow> (string \<times> pyval) list option \<Rightarrow> pyval \<Rightarrow> (string \<times> pyval) list" where
  "request_dict command stream arguments tag =
     (let req0 = [(''command'', PStr command)];
          req1 = (case arguments of None \<Rightarrow> req0 | Some args \<Rightarrow> dict_update req0 args);
          req2 = (if stream \<noteq> PNone then dict_set ''streamSessionId'' stream req1 else req1)
      in if tag \<noteq> PNone then dict_set ''customTag'' tag req2 else req2)"

definition send_request ::
  "string \<Rightarrow> pyval \<Rightarrow> (string \<times> pyval) list option \<Rightarrow> pyval \<Rightarrow> 'a handler_scheme
     \<Rightarrow> (bool, 'a handler_scheme) outcome" where
  "send_request command stream arguments tag h =
     (let req = request_dict command stream arguments tag
      in send (h_dumps h req) (h\<lparr>h_log := h_log h @ [EvRequest req]\<rparr>))"

text \<open>
  \<open>_receive_response\<close>: \<open>not response\<close> holds for False and for the empty text alike.
\<close>

definition receive_response :: "'a handler_scheme \<Rightarrow> (pyval, 'a handler_scheme) outcome" where
  "receive_response h =
     (case receive (h\<lparr>h_log := h_log h @ [EvReceive]\<rparr>) of
        Return response h1 \<Rightarrow>
          if \<not> truthy response then Return (PBool False) h1
          else (case response of
                  PStr text \<Rightarrow>
                    (case h_decoder h1 text of
                       None \<Rightarrow> Return (PBool False) h1
                     | Some v \<Rightarrow> Return v h1)
                | _ \<Rightarrow> Raise TypeError h1)
      | Raise e h1 \<Rightarrow> Raise e h1
      | Hang h1 \<Rightarrow> Hang h1)"

text \<open>
  The reconnect callback is the attribute \<open>_call_reconnect\<close>: \<open>None\<close> until
  \<open>_set_reconnect_method\<close> stores a callable, and calling \<open>None\<close> raises TypeError. The
  callback is any function of the handler's state. One call is one entry of the log,
  whatever the callback does inside; its return value is not used.
\<close>

type_synonym 's callback = "('s \<Rightarrow> (bool, 's) outcome) option"

definition call_reconnect ::
  "('a handler_scheme) callback \<Rightarrow> 'a handler_scheme \<Rightarrow> (unit, 'a handler_scheme) outcome" where
  "call_reconnect cb h =
     (case cb of
        None \<Rightarrow> Raise TypeError h
      | Some f \<Rightarrow>
          (case f h of
             Return r h' \<Rightarrow> Return () (h'\<lparr>h_log := h_log h @ [EvReconnect]\<rparr>)
           | Raise e h' \<Rightarrow> Raise e (h'\<lparr>h_log := h_log h @ [EvReconnect]\<rparr>)
           | Hang h' \<Rightarrow> Hang (h'\<lparr>h_log := h_log h @ [EvReconnect]\<rparr>)))"

text \<open>
  \<open>_request\<close>: the \<open>while True\<close> loop goes round again only after it has set \<open>retry\<close> to
  False, so the recursion is on \<open>retry\<close>.
\<close>

function handler_request ::
  "('a handler_scheme) callback \<Rightarrow> bool \<Rightarrow> string \<Rightarrow> pyval \<Rightarrow> (string \<times> pyval) list option
     \<Rightarrow> pyval \<Rightarrow> 'a handler_scheme \<Rightarrow> (bool, 'a handler_scheme) outcome" where
  "handler_request cb retry command stream arguments tag h =
     (case send_request command stream arguments tag h of
        Return ok h1 \<Rightarrow>
          if \<not> ok then
            (if retry then
               (case call_reconnect cb h1 of
                  Return u h2 \<Rightarrow> handler_request cb False command stream arguments tag h2
                | Raise e h2 \<Rightarrow> Raise e h2
                | Hang h2 \<Rightarrow> Hang h2)
             else Return False h1)
          else Return True h1
      | Raise e h1 \<Rightarrow> Raise e h1
      | Hang h1 \<Rightarrow> Hang h1)"
  by pat_completeness auto
termination
  by (relation "measure (\<lambda>(cb, retry, rest). if retry then 1 else 0)") auto

declare handler_request.simps [simp del]

text \<open>
  The checks of \<open>_receive\<close> after its loop. With \<open>data\<close> set the response needs a
  \<open>status\<close>; on a false status the method logs \<open>response['errorCode']\<close> and
  \<open>response['errorDescr']\<close>, which raise KeyError when absent, and returns False.
\<close>

definition check_status :: "bool \<Rightarrow> pyval \<Rightarrow> 's \<Rightarrow> (pyval, 's) outcome" where
  "check_status data response h =
     (if data then
        (case py_contains ''status'' response of
           Inl e \<Rightarrow> Raise e h
         | Inr present \<Rightarrow>
             if \<not> present then Return (PBool False) h
             else
               (case py_getitem response ''status'' of
                  Inl e \<Rightarrow> Raise e h
                | Inr status \<Rightarrow>
                    if \<not> truthy status then
                      (case py_getitem response ''errorCode'' of
                         Inl e \<Rightarrow> Raise e h
                       | Inr code \<Rightarrow>
                           (case py_getitem response ''errorDescr'' of
                              Inl e \<Rightarrow> Raise e h
                            | Inr descr \<Rightarrow> Return (PBool False) h))
                    else Return response h))
      else Return response h)"

text \<open>
  \<open>_receive\<close>: as in \<open>_request\<close>, one more pass after the callback at most. A response
  that is falsy (False, but also an empty dict, 0, null) counts as a failed receive.
\<close>

function handler_receive ::
  "('a handler_scheme) callback \<Rightarrow> bool \<Rightarrow> bool \<Rightarrow> 'a handler_scheme
     \<Rightarrow> (pyval, 'a handler_scheme) outcome" where
  "handler_receive cb retry data h =
     (case receive_response h of
        Return response h1 \<Rightarrow>
          if \<not> truthy response then
            (if retry then
               (case call_reconnect cb h1 of
                  Return u h2 \<Rightarrow> handler_receive cb False data h2
                | Raise e h2 \<Rightarrow> Raise e h2
                | Hang h2 \<Rightarrow> Hang h2)
             else Return (PBool False) h1)
          else check_status data response h1
      | Raise e h1 \<Rightarrow> Raise e h1
      | Hang h1 \<Rightarrow> Hang h1)"
  by pat_completeness auto
termination
  by (relation "measure (\<lambda>(cb, retry, rest). if retry then 1 else 0)") auto

declare handler_receive.simps [simp del]

subsection \<open>The keepalive loop\<close>

text \<open>
  \<open>_stop_ping\<close>: False when the ping was never started; else the flag is cleared and,
  outside the thread, the thread joined. The loop of \<open>_send_ping\<close> tests the flag on
  every pass, and the model takes the join to return.
\<close>

definition stop_ping :: "bool \<Rightarrow> 'a handler_scheme \<Rightarrow> (bool, 'a handler_scheme) outcome" where
  "stop_ping inThread h =
     (case h_ping h of
        None \<Rightarrow> Return False h
      | Some running \<Rightarrow> Return True (h\<lparr>h_ping := Some False\<rparr>))"

text \<open>
  \<open>_start_ping\<close>: stops a running ping, sets the flag and starts the thread of
  \<open>_send_ping\<close> with the argument \<open>ssid if bool(ssid) else None\<close>.
\<close>

definition start_ping :: "pyval \<Rightarrow> 'a handler_scheme \<Rightarrow> (bool, 'a handler_scheme) outcome" where
  "start_ping ssid h =
     (case (case h_ping h of
              Some True \<Rightarrow> stop_ping False h
            | _ \<Rightarrow> Return True h) of
        Return r h1 \<Rightarrow>
          Return True (h1\<lparr>h_ping := Some True,
                           h_ping_ssid := (if truthy ssid then ssid else PNone)\<rparr>)
      | Raise e h1 \<Rightarrow> Raise e h1
      | Hang h1 \<Rightarrow> Hang h1)"

text \<open>
  \<open>_send_ping\<close> runs in its own thread. One entry of \<open>ticks\<close> answers one pass of its
  loop: whether another thread cleared the flag before the pass tests it, and the seconds
  \<open>time.time() - start_time\<close> the pass measures at its end. Seconds are rationals here and
  \<open>ping_interval\<close> is \<open>60*9.9\<close>. A pass that is due sends the ping with
  \<open>stream=ssid if not bool(ssid) else None\<close> and, when \<open>ssid\<close> is falsy, awaits the checked
  response; a failure stops the ping and returns False. The loop returns None when it finds
  the flag cleared, and it is still running when the ticks end.
\<close>

definition ping_interval :: rat where
  "ping_interval = 60 * (99 / 10)"

fun send_ping :: "('a handler_scheme) callback \<Rightarrow> pyval \<Rightarrow> rat \<Rightarrow> (bool \<times> rat) list
     \<Rightarrow> 'a handler_scheme \<Rightarrow> (pyval, 'a handler_scheme) outcome" where
  "send_ping cb ssid next_ping [] h = Hang h"
| "send_ping cb ssid next_ping ((stopped, elapsed) # ticks) h =
     (let h0 = (if stopped then h\<lparr>h_ping := Some False\<rparr> else h) in
      case h_ping h0 of
        None \<Rightarrow> Raise (KeyError ''ping'') h0
      | Some False \<Rightarrow> Return PNone h0
      | Some True \<Rightarrow>
          if next_ping \<ge> ping_interval then
            (case handler_request cb True ''ping'' (if \<not> truthy ssid then ssid else PNone)
                    None PNone h0 of
               Return ok h1 \<Rightarrow>
                 if \<not> ok then
                   (case stop_ping True h1 of
                      Return r h2 \<Rightarrow> Return (PBool False) h2
                    | Raise e h2 \<Rightarrow> Raise e h2
                    | Hang h2 \<Rightarrow> Hang h2)
                 else if \<not> truthy ssid then
                   (case handler_receive cb True True h1 of
                      Return response h2 \<Rightarrow>
                        if \<not> truthy response then
                          (case stop_ping True h2 of
                             Return r h3 \<Rightarrow> Return (PBool False) h3
                           | Raise e h3 \<Rightarrow> Raise e h3
                           | Hang h3 \<Rightarrow> Hang h3)
                        else send_ping cb ssid (0 + elapsed) ticks
                               (h2\<lparr>c_sleeps := Suc (c_sleeps h2)\<rparr>)
                    | Raise e h2 \<Rightarrow> Raise e h2
                    | Hang h2 \<Rightarrow> Hang h2)
                 else send_ping cb ssid (0 + elapsed) ticks (h1\<lparr>c_sleeps := Suc (c_sleeps h1)\<rparr>)
             | Raise e h1 \<Rightarrow> Raise e h1
             | Hang h1 \<Rightarrow> Hang h1)
          else send_ping cb ssid (next_ping + elapsed) ticks (h0\<lparr>c_sleeps := Suc (c_sleeps h0)\<rparr>))"

subsection \<open>The data handler\<close>

text \<open>
  \<open>_DataHandler\<close> extends \<open>_GeneralHandler\<close>. \<open>dh_status\<close> is None, \<open>'active'\<close> or
  \<open>'inactive'\<close>; \<open>dh_ssid\<close> is None or the \<open>streamSessionId\<close> of the login response;
  \<open>dh_stream_handlers\<close> lists the attached stream handlers by their numbers.
\<close>

record data_handler = handler +
  dh_status :: pyval
  dh_deleted :: bool
  dh_ssid :: pyval
  dh_stream_handlers :: "nat list"

text \<open>
  \<open>getData(command, **kwargs)\<close>. The method holds the ping lock of the handler while it
  talks to the server; the model runs one thread, which gets the lock at once.
\<close>

definition getData ::
  "('a data_handler_scheme) callback \<Rightarrow> string \<Rightarrow> (string \<times> pyval) list
     \<Rightarrow> 'a data_handler_scheme \<Rightarrow> (pyval, 'a data_handler_scheme) outcome" where
  "getData cb command kwargs dh =
     (if \<not> truthy (dh_ssid dh) then Return (PBool False) dh
      else
        (case handler_request cb True (''get'' @ command) PNone
                (if kwargs \<noteq> [] then Some [(''arguments'', PDict kwargs)] else None) PNone dh of
           Return ok dh1 \<Rightarrow>
             if \<not> ok then Return (PBool False) dh1
             else
               (case handler_receive cb True True dh1 of
                  Return response dh2 \<Rightarrow>
                    if \<not> truthy response then Return (PBool False) dh2
                    else
                      (case py_contains ''returnData'' response of
                         Inl e \<Rightarrow> Raise e dh2
                       | Inr present \<Rightarrow>
                           if \<not> present then Return (PBool False) dh2
                           else
                             (case py_getitem response ''returnData'' of
                                Inl e \<Rightarrow> Raise e dh2
                              | Inr v \<Rightarrow> Return v dh2))
                | Raise e dh2 \<Rightarrow> Raise e dh2
                | Hang dh2 \<Rightarrow> Hang dh2)
         | Raise e dh1 \<Rightarrow> Raise e dh1
         | Hang dh1 \<Rightarrow> Hang dh1))"

subsection \<open>The stream handler\<close>

text \<open>
  \<open>_StreamHandler\<close> extends \<open>_GeneralHandler\<close>. \<open>sh_dh\<close> is the number of its data
  handler. \<open>sh_tasks\<close> is the dict \<open>_streams['tasks']\<close> and \<open>sh_stream\<close> the entry
  \<open>_streams['stream']\<close>: \<open>None\<close> while the key is absent (\<open>streamData\<close> stores the flag and
  the thread of \<open>_readStream\<close> together).
\<close>

record task =
  t_command :: string
  t_arguments :: "(string \<times> pyval) list"

record stream_handler = handler +
  sh_dh :: nat
  sh_ssid :: pyval
  sh_status :: pyval
  sh_deleted :: bool
  sh_tasks :: "(nat \<times> task) list"
  sh_stream :: "bool option"

text \<open>
  \<open>streamData(command, **kwargs)\<close>; \<open>ssid\<close> is the value of \<open>self._dh._ssid\<close>, which
  the method only reads. The first registered task starts the read loop.
\<close>

definition streamData ::
  "('a stream_handler_scheme) callback \<Rightarrow> pyval \<Rightarrow> string \<Rightarrow> (string \<times> pyval) list
     \<Rightarrow> 'a stream_handler_scheme \<Rightarrow> (bool, 'a stream_handler_scheme) outcome" where
  "streamData cb ssid command kwargs sh =
     (if \<not> truthy ssid then Return False sh
      else
        (case handler_request cb True (''get'' @ command) ssid
                (if kwargs \<noteq> [] then Some kwargs else None) PNone (sh\<lparr>sh_ssid := ssid\<rparr>) of
           Return ok sh1 \<Rightarrow>
             if \<not> ok then Return False sh1
             else
               (let index = length (sh_tasks sh1);
                    tasks = dict_set index \<lparr>t_command = command, t_arguments = kwargs\<rparr>
                              (sh_tasks sh1)
                in Return True
                     (sh1\<lparr>sh_tasks := tasks,
                          sh_stream := (case sh_stream sh1 of None \<Rightarrow> Some True | Some b \<Rightarrow> Some b)\<rparr>))
         | Raise e sh1 \<Rightarrow> Raise e sh1
         | Hang sh1 \<Rightarrow> Hang sh1))"

text \<open>
  \<open>endStream(inThread)\<close>. Reading \<open>_streams['stream']\<close> raises KeyError while no stream
  was started. The \<open>for\<close> loop iterates over the dict \<open>_streams['tasks']\<close> and pops the
  current key in its body. Python's dict iterator compares the size of the dict with the
  size at the start of the loop before it yields a key, also when no key is left, and
  raises RuntimeError when they differ: so the loop raises after its first pass. With no
  task the body never runs, \<open>command\<close> stays unbound and the last logging line raises
  UnboundLocalError. The argument is a Python value: \<open>delete\<close> passes a key of \<open>_streams\<close>.
  When it is falsy the method joins the thread of the read loop, and the model takes the
  join to return.
  The request is \<open>'stop' + command\<close> with the \<open>symbol\<close> of the task, if it has one.
\<close>

definition endStream ::
  "('a stream_handler_scheme) callback \<Rightarrow> pyval \<Rightarrow> 'a stream_handler_scheme
     \<Rightarrow> (bool, 'a stream_handler_scheme) outcome" where
  "endStream cb inThread sh =
     (case sh_stream sh of
        None \<Rightarrow> Raise (KeyError ''stream'') sh
      | Some running \<Rightarrow>
          (let sh1 = (if \<not> running then sh else sh\<lparr>sh_stream := Some False\<rparr>) in
           case sh_tasks sh1 of
             [] \<Rightarrow> Raise UnboundLocalError sh1
           | (index, t) # rest \<Rightarrow>
               (case handler_request cb False (''stop'' @ t_command t) PNone
                       (case map_of (t_arguments t) ''symbol'' of
                          Some symbol \<Rightarrow> Some [(''symbol'', symbol)]
                        | None \<Rightarrow> None) PNone sh1 of
                  Return ok sh2 \<Rightarrow>
                    Raise RuntimeError (sh2\<lparr>sh_tasks := filter (\<lambda>kv. fst kv \<noteq> index) (sh_tasks sh2)\<rparr>)
                | Raise e sh2 \<Rightarrow> Raise e sh2
                | Hang sh2 \<Rightarrow> Hang sh2)))"

text \<open>
  \<open>_readStream\<close> runs in its own thread. \<open>n\<close> bounds the number of packets the model
  follows; the loop is still running when the bound is reached. A failed receive or a
  falsy \<open>response['data']\<close> calls \<open>endStream(inThread=True)\<close> and returns False;
  \<open>response['data']\<close> raises KeyError when the packet has no \<open>data\<close>.
\<close>

fun readStream :: "('a stream_handler_scheme) callback \<Rightarrow> nat \<Rightarrow> 'a stream_handler_scheme
     \<Rightarrow> (pyval, 'a stream_handler_scheme) outcome" where
  "readStream cb 0 sh = Hang sh"
| "readStream cb (Suc n) sh =
     (case sh_stream sh of
        None \<Rightarrow> Raise (KeyError ''stream'') sh
      | Some False \<Rightarrow> Return PNone sh
      | Some True \<Rightarrow>
          (case handler_receive cb True False sh of
             Return response sh1 \<Rightarrow>
               if \<not> truthy response then
                 (case endStream cb (PBool True) sh1 of
                    Return r sh2 \<Rightarrow> Return (PBool False) sh2
                  | Raise e sh2 \<Rightarrow> Raise e sh2
                  | Hang sh2 \<Rightarrow> Hang sh2)
               else
                 (case py_getitem response ''data'' of
                    Inl e \<Rightarrow> Raise e sh1
                  | Inr d \<Rightarrow>
                      if \<not> truthy d then
                        (case endStream cb (PBool True) sh1 of
                           Return r sh2 \<Rightarrow> Return (PBool False) sh2
                         | Raise e sh2 \<Rightarrow> Raise e sh2
                         | Hang sh2 \<Rightarrow> Hang sh2)
                      else readStream cb n (sh1\<lparr>h_log := h_log sh1 @ [EvPrint d]\<rparr>))
           | Raise e sh1 \<Rightarrow> Raise e sh1
           | Hang sh1 \<Rightarrow> Hang sh1))"

subsection \<open>Objects that refer to each other\<close>

text \<open>
  A stream handler holds its data handler and a data handler the list of its stream
  handlers. The objects live in a store and refer to each other by number; \<open>w_next\<close> is
  the next free number. A method called on an object runs on the object's entry of the
  store; a number without an entry does not occur in the program and ends the call with
  AttributeError.
\<close>

record world =
  w_data :: "nat \<Rightarrow> data_handler option"
  w_stream :: "nat \<Rightarrow> stream_handler option"
  w_next :: nat

definition on_data ::
  "nat \<Rightarrow> (data_handler \<Rightarrow> ('a, data_handler) outcome) \<Rightarrow> 'b world_scheme
     \<Rightarrow> ('a, 'b world_scheme) outcome" where
  "on_data j f w =
     (case w_data w j of
        None \<Rightarrow> Raise AttributeError w
      | Some dh \<Rightarrow>
          (case f dh of
             Return x dh' \<Rightarrow> Return x (w\<lparr>w_data := (w_data w)(j \<mapsto> dh')\<rparr>)
           | Raise e dh' \<Rightarrow> Raise e (w\<lparr>w_data := (w_data w)(j \<mapsto> dh')\<rparr>)
           | Hang dh' \<Rightarrow> Hang (w\<lparr>w_data := (w_data w)(j \<mapsto> dh')\<rparr>)))"

definition on_stream ::
  "nat \<Rightarrow> (stream_handler \<Rightarrow> ('a, stream_handler) outcome) \<Rightarrow> 'b world_scheme
     \<Rightarrow> ('a, 'b world_scheme) outcome" where
  "on_stream i f w =
     (case w_stream w i of
        None \<Rightarrow> Raise AttributeError w
      | Some sh \<Rightarrow>
          (case f sh of
             Return x sh' \<Rightarrow> Return x (w\<lparr>w_stream := (w_stream w)(i \<mapsto> sh')\<rparr>)
           | Raise e sh' \<Rightarrow> Raise e (w\<lparr>w_stream := (w_stream w)(i \<mapsto> sh')\<rparr>)
           | Hang sh' \<Rightarrow> Hang (w\<lparr>w_stream := (w_stream w)(i \<mapsto> sh')\<rparr>)))"

text \<open>\<open>_attach_stream_handler\<close> and \<open>_detach_stream_handler\<close> of the data handler.\<close>

definition attach_stream_handler :: "nat \<Rightarrow> 'a data_handler_scheme \<Rightarrow> 'a data_handler_scheme" where
  "attach_stream_handler i dh =
     (if i \<notin> set (dh_stream_handlers dh)
      then dh\<lparr>dh_stream_handlers := dh_stream_handlers dh @ [i]\<rparr>
      else dh)"

definition detach_stream_handler :: "nat \<Rightarrow> 'a data_handler_scheme \<Rightarrow> 'a data_handler_scheme" where
  "detach_stream_handler i dh =
     (if i \<in> set (dh_stream_handlers dh)
      then dh\<lparr>dh_stream_handlers := remove1 i (dh_stream_handlers dh)\<rparr>
      else dh)"

subsection \<open>Deleting handlers\<close>

text \<open>
  \<open>_StreamHandler.delete\<close> calls \<open>endStream(index)\<close> for every key of \<open>_streams\<close>, in the
  order of insertion: \<open>'tasks'\<close>, and \<open>'stream'\<close> and \<open>'thread'\<close> once a stream was started.
  The key lands in the parameter \<open>inThread\<close>. The callbacks \<open>cb_sh\<close> and \<open>cb_dh\<close> are the
  \<open>_call_reconnect\<close> of the stream handlers and of the data handlers; the requests on
  these paths pass \<open>retry=False\<close>.
\<close>

fun end_streams :: "('a stream_handler_scheme) callback \<Rightarrow> string list \<Rightarrow> 'a stream_handler_scheme
     \<Rightarrow> (unit, 'a stream_handler_scheme) outcome" where
  "end_streams cb [] sh = Return () sh"
| "end_streams cb (key # keys) sh =
     (case endStream cb (PStr key) sh of
        Return r sh1 \<Rightarrow> end_streams cb keys sh1
      | Raise e sh1 \<Rightarrow> Raise e sh1
      | Hang sh1 \<Rightarrow> Hang sh1)"

definition streams_keys :: "'a stream_handler_scheme \<Rightarrow> string list" where
  "streams_keys sh = ''tasks'' # (if sh_stream sh = None then [] else [''stream'', ''thread''])"

definition sh_teardown :: "stream_handler callback \<Rightarrow> stream_handler \<Rightarrow> (unit, stream_handler) outcome" where
  "sh_teardown cb sh =
     (case end_streams cb (streams_keys sh) sh of
        Return u sh1 \<Rightarrow>
          (case stop_ping False sh1 of
             Return r sh2 \<Rightarrow>
               (case close sh2 of
                  Return r' sh3 \<Rightarrow> Return () (sh3\<lparr>sh_status := PStr ''inactive''\<rparr>)
                | Raise e sh3 \<Rightarrow> Raise e sh3
                | Hang sh3 \<Rightarrow> Hang sh3)
           | Raise e sh2 \<Rightarrow> Raise e sh2
           | Hang sh2 \<Rightarrow> Hang sh2)
      | Raise e sh1 \<Rightarrow> Raise e sh1
      | Hang sh1 \<Rightarrow> Hang sh1)"

definition sh_delete :: "stream_handler callback \<Rightarrow> nat \<Rightarrow> 'b world_scheme \<Rightarrow> (bool, 'b world_scheme) outcome" where
  "sh_delete cb_sh i w =
     (case w_stream w i of
        None \<Rightarrow> Raise AttributeError w
      | Some sh \<Rightarrow>
          if sh_deleted sh then Return True w
          else
            (case on_stream i (sh_teardown cb_sh) w of
               Return u w1 \<Rightarrow>
                 (case on_data (sh_dh sh) (\<lambda>dh. Return () (detach_stream_handler i dh)) w1 of
                    Return u' w2 \<Rightarrow> on_stream i (\<lambda>sh'. Return True (sh'\<lparr>sh_deleted := True\<rparr>)) w2
                  | Raise e w2 \<Rightarrow> Raise e w2
                  | Hang w2 \<Rightarrow> Hang w2)
             | Raise e w1 \<Rightarrow> Raise e w1
             | Hang w1 \<Rightarrow> Hang w1))"

text \<open>
  \<open>_close_stream_handlers\<close> deletes every stream handler of a copy of the list; the
  result of each \<open>delete\<close> is only logged.
\<close>

fun close_stream_handlers :: "stream_handler callback \<Rightarrow> nat list \<Rightarrow> 'b world_scheme
     \<Rightarrow> (bool, 'b world_scheme) outcome" where
  "close_stream_handlers cb_sh [] w = Return True w"
| "close_stream_handlers cb_sh (i # rest) w =
     (case sh_delete cb_sh i w of
        Return r w1 \<Rightarrow> close_stream_handlers cb_sh rest w1
      | Raise e w1 \<Rightarrow> Raise e w1
      | Hang w1 \<Rightarrow> Hang w1)"

text \<open>
  \<open>_logout\<close>: a failed request or response is logged and the method goes on; it closes
  the connection, clears the token and sets the status.
\<close>

definition logout :: "('a data_handler_scheme) callback \<Rightarrow> 'a data_handler_scheme
     \<Rightarrow> (bool, 'a data_handler_scheme) outcome" where
  "logout cb dh =
     (case handler_request cb False ''logout'' PNone None PNone dh of
        Return ok dh1 \<Rightarrow>
          (case handler_receive cb False True dh1 of
             Return response dh2 \<Rightarrow>
               (case close dh2 of
                  Return r dh3 \<Rightarrow> Return True (dh3\<lparr>dh_ssid := PNone, dh_status := PStr ''inactive''\<rparr>)
                | Raise e dh3 \<Rightarrow> Raise e dh3
                | Hang dh3 \<Rightarrow> Hang dh3)
           | Raise e dh2 \<Rightarrow> Raise e dh2
           | Hang dh2 \<Rightarrow> Hang dh2)
      | Raise e dh1 \<Rightarrow> Raise e dh1
      | Hang dh1 \<Rightarrow> Hang dh1)"

definition dh_delete :: "data_handler callback \<Rightarrow> stream_handler callback \<Rightarrow> nat \<Rightarrow> 'b world_scheme
     \<Rightarrow> (bool, 'b world_scheme) outcome" where
  "dh_delete cb_dh cb_sh j w =
     (case w_data w j of
        None \<Rightarrow> Raise AttributeError w
      | Some dh \<Rightarrow>
          if dh_deleted dh then Return True w
          else
            (case close_stream_handlers cb_sh (dh_stream_handlers dh) w of
               Return r w1 \<Rightarrow>
                 (case on_data j (stop_ping False) w1 of
                    Return r' w2 \<Rightarrow>
                      (case on_data j (logout cb_dh) w2 of
                         Return r'' w3 \<Rightarrow> on_data j (\<lambda>dh'. Return True (dh'\<lparr>dh_deleted := True\<rparr>)) w3
                       | Raise e w3 \<Rightarrow> Raise e w3
                       | Hang w3 \<Rightarrow> Hang w3)
                  | Raise e w2 \<Rightarrow> Raise e w2
                  | Hang w2 \<Rightarrow> Hang w2)
             | Raise e w1 \<Rightarrow> Raise e w1
             | Hang w1 \<Rightarrow> Hang w1))"

subsection \<open>The handler manager\<close>

text \<open>
  \<open>HandlerManager\<close>: the dicts \<open>_handlers['data']\<close> and \<open>_handlers['stream']\<close> map a handler
  to its name, in insertion order. \<open>m_max_streams\<close> is \<open>floor(1000/SEND_INTERVAL)\<close> and
  \<open>m_max_connections\<close> is \<open>MAX_CONNECTIONS\<close>, both from the configuration file.
\<close>

record manager = world +
  m_data :: "(nat \<times> string) list"
  m_stream :: "(nat \<times> string) list"
  m_max_streams :: int
  m_max_connections :: int
  m_connections :: int
  m_deleted :: bool

datatype href = DataRef nat | StreamRef nat

text \<open>\<open>str(index)\<close> for the names \<open>'DH_' + str(index)\<close> and \<open>'SH_' + str(index)\<close>.\<close>

function str_nat :: "nat \<Rightarrow> string" where
  "str_nat n = (if n < 10 then [char_of (48 + n)] else str_nat (n div 10) @ [char_of (48 + n mod 10)])"
  by pat_completeness auto
termination
  by (relation "measure id") auto

declare str_nat.simps [simp del]

text \<open>
  \<open>_delete_handler\<close>: for a data handler, after \<open>delete\<close> and the first decrement, the
  loop header \<open>list(handler.get_StreamHandler)\<close> applies \<open>list\<close> to the bound method and
  raises TypeError.
\<close>

fun delete_handler :: "data_handler callback \<Rightarrow> stream_handler callback \<Rightarrow> href \<Rightarrow> manager
     \<Rightarrow> (bool, manager) outcome" where
  "delete_handler cb_dh cb_sh (DataRef j) m =
     (case dh_delete cb_dh cb_sh j m of
        Return r m1 \<Rightarrow> Raise TypeError (m1\<lparr>m_connections := m_connections m1 - 1\<rparr>)
      | Raise e m1 \<Rightarrow> Raise e m1
      | Hang m1 \<Rightarrow> Hang m1)"
| "delete_handler cb_dh cb_sh (StreamRef i) m =
     (case sh_delete cb_sh i m of
        Return r m1 \<Rightarrow> Return True (m1\<lparr>m_connections := m_connections m1 - 1\<rparr>)
      | Raise e m1 \<Rightarrow> Raise e m1
      | Hang m1 \<Rightarrow> Hang m1)"

text \<open>
  \<open>HandlerManager.delete\<close>. Its test is \<open>handler.get_status == 'active'\<close>: the attribute
  without a call is the bound method, and \<open>==\<close> compares that method with the string.
  The method returns True when the manager was deleted before and None otherwise.
\<close>

fun delete_active :: "data_handler callback \<Rightarrow> stream_handler callback \<Rightarrow> nat list \<Rightarrow> manager
     \<Rightarrow> (unit, manager) outcome" where
  "delete_active cb_dh cb_sh [] m = Return () m"
| "delete_active cb_dh cb_sh (j # rest) m =
     (if PMethod j ''get_status'' = PStr ''active'' then
        (case delete_handler cb_dh cb_sh (DataRef j) m of
           Return r m1 \<Rightarrow> delete_active cb_dh cb_sh rest m1
         | Raise e m1 \<Rightarrow> Raise e m1
         | Hang m1 \<Rightarrow> Hang m1)
      else delete_active cb_dh cb_sh rest m)"

definition manager_delete :: "data_handler callback \<Rightarrow> stream_handler callback \<Rightarrow> manager
     \<Rightarrow> (pyval, manager) outcome" where
  "manager_delete cb_dh cb_sh m =
     (if m_deleted m then Return (PBool True) m
      else
        (case delete_active cb_dh cb_sh (map fst (m_data m)) m of
           Return u m1 \<Rightarrow> Return PNone (m1\<lparr>m_deleted := True\<rparr>)
         | Raise e m1 \<Rightarrow> Raise e m1
         | Hang m1 \<Rightarrow> Hang m1))"

text \<open>
  \<open>_avlb_DataHandler\<close> and \<open>_avlb_StreamHandler\<close>: the first registered handler whose
  \<open>get_status()\<close> is \<open>'active'\<close> (and, for a stream handler, with fewer tasks than
  \<open>_max_streams\<close>), or None.
\<close>

definition avlb_DataHandler :: "manager \<Rightarrow> nat option" where
  "avlb_DataHandler m =
     find (\<lambda>j. case w_data m j of
                  Some dh \<Rightarrow> dh_status dh = PStr ''active''
                | None \<Rightarrow> False) (map fst (m_data m))"

definition avlb_StreamHandler :: "manager \<Rightarrow> nat option" where
  "avlb_StreamHandler m =
     find (\<lambda>i. case w_stream m i of
                  Some sh \<Rightarrow> sh_status sh = PStr ''active''
                              \<and> int (length (sh_tasks sh)) < m_max_streams m
                | None \<Rightarrow> False) (map fst (m_stream m))"

text \<open>
  The constructors \<open>_DataHandler(...)\<close> and \<open>_StreamHandler(...)\<close> talk to the server; what
  they build is the environment of the manager: \<open>new_dh\<close> and \<open>new_sh\<close> are the exception
  the constructor raises or the object it leaves. The model stores the object under the next
  free number; the constructor of a stream handler raises ValueError when it is given no
  data handler, and it attaches the new object to its data handler. The methods return the
  handler, or False, which is \<open>None\<close> here.
\<close>

definition generate_DataHandler :: "pyerr + data_handler \<Rightarrow> manager \<Rightarrow> (nat option, manager) outcome" where
  "generate_DataHandler new_dh m =
     (if m_connections m \<ge> m_max_connections m then Return None m
      else
        (let index = length (m_data m); name = ''DH_'' @ str_nat index in
         case new_dh of
           Inl e \<Rightarrow> Raise e m
         | Inr dh \<Rightarrow>
             (let j = w_next m in
              Return (Some j)
                (m\<lparr>w_data := (w_data m)(j \<mapsto> dh), w_next := Suc j,
                   m_data := dict_set j name (m_data m),
                   m_connections := m_connections m + 1\<rparr>))))"

definition provide_DataHandler :: "pyerr + data_handler \<Rightarrow> manager \<Rightarrow> (nat option, manager) outcome" where
  "provide_DataHandler new_dh m =
     (case avlb_DataHandler m of
        Some j \<Rightarrow> Return (Some j) m
      | None \<Rightarrow> generate_DataHandler new_dh m)"

definition generate_StreamHandler ::
  "pyerr + data_handler \<Rightarrow> pyerr + stream_handler \<Rightarrow> manager \<Rightarrow> (nat option, manager) outcome" where
  "generate_StreamHandler new_dh new_sh m =
     (if m_connections m \<ge> m_max_connections m then Return None m
      else
        (let index = length (m_stream m); name = ''SH_'' @ str_nat index in
         case provide_DataHandler new_dh m of
           Return dh_ref m1 \<Rightarrow>
             (case dh_ref of
                None \<Rightarrow> Raise ValueError m1
              | Some j \<Rightarrow>
                  (case new_sh of
                     Inl e \<Rightarrow> Raise e m1
                   | Inr sh \<Rightarrow>
                       (let i = w_next m1 in
                        case on_data j (\<lambda>dh. Return () (attach_stream_handler i dh))
                               (m1\<lparr>w_stream := (w_stream m1)(i \<mapsto> sh\<lparr>sh_dh := j\<rparr>),
                                    w_next := Suc i\<rparr>) of
                          Return u m2 \<Rightarrow>
                            Return (Some i)
                              (m2\<lparr>m_stream := dict_set i name (m_stream m2),
                                    m_connections := m_connections m2 + 1\<rparr>)
                        | Raise e m2 \<Rightarrow> Raise e m2
                        | Hang m2 \<Rightarrow> Hang m2)))
         | Raise e m1 \<Rightarrow> Raise e m1
         | Hang m1 \<Rightarrow> Hang m1))"

definition provide_StreamHandler ::
  "pyerr + data_handler \<Rightarrow> pyerr + stream_handler \<Rightarrow> manager \<Rightarrow> (nat option, manager) outcome" where
  "provide_StreamHandler new_dh new_sh m =
     (case avlb_StreamHandler m of
        Some i \<Rightarrow> Return (Some i) m
      | None \<Rightarrow> generate_StreamHandler new_dh new_sh m)"

section \<open>Observing a call\<close>

text \<open>
  The state an outcome carries, the entries a call added to the log of the handler it
  started from, and the number of reconnect calls among some entries.
\<close>

fun outcome_state :: "('a, 's) outcome \<Rightarrow> 's" where
  "outcome_state (Return x s) = s"
| "outcome_state (Raise e s) = s"
| "outcome_state (Hang s) = s"

definition events_since :: "'b handler_scheme \<Rightarrow> ('a, 'c handler_scheme) outcome \<Rightarrow> event list" where
  "events_since h out = drop (length (h_log h)) (h_log (outcome_state out))"

definition reconnects :: "event list \<Rightarrow> nat" where
  "reconnects evs = length (filter (\<lambda>e. e = EvReconnect) evs)"

text \<open>
  The object without the part the socket scripts and counters take: two states with the
  same \<open>strip_io\<close> differ in what was read, written and slept only.
\<close>

definition strip_io :: "'a client_scheme \<Rightarrow> 'a client_scheme" where
  "strip_io c = c\<lparr>c_rx := [], c_tx := [], c_wire := [], c_sleeps := 0\<rparr>"

section \<open>Example inputs\<close>

text \<open>Two IPv4 addresses as \<open>getaddrinfo\<close> returns them, and a client that used none yet.\<close>

definition addr_A :: addrinfo where
  "addr_A = \<lparr>ai_family = 2, ai_socktype = 1, ai_proto = 6, ai_cname = [],
              ai_sockaddr = Sockaddr4 ''10.0.0.1'' 5124\<rparr>"

definition addr_B :: addrinfo where
  "addr_B = \<lparr>ai_family = 2, ai_socktype = 1, ai_proto = 6, ai_cname = [],
              ai_sockaddr = Sockaddr4 ''10.0.0.2'' 5124\<rparr>"

definition fresh_client :: client where
  "fresh_client = \<lparr>c_encrypted = True, c_stream = False, c_bytes_out = 1024,
                    c_used_addresses = [], c_selected = None, c_socket = None,
                    c_rx = [], c_tx = [], c_wire = [], c_sleeps = 0\<rparr>"

text \<open>
  Texts the examples receive, and a handler for the examples. \<open>example_decoder\<close> decodes
  these texts and \<open>example_dumps\<close> stands for \<open>json.dumps\<close>: it writes the command of the
  request only.
\<close>

definition balance_text :: string where
  \<open>balance_text = ''{"status": true, "returnData": 7}''\<close>

definition failure_text :: string where
  \<open>failure_text = ''{"status": false, "errorCode": "E1", "errorDescr": "bad"}''\<close>

definition bare_failure_text :: string where
  \<open>bare_failure_text = ''{"status": false}''\<close>

definition empty_data_text :: string where
  \<open>empty_data_text = ''{"data": {}}''\<close>

definition no_data_text :: string where
  \<open>no_data_text = ''{"command": "tickPrices"}''\<close>

definition failure_fields :: "(string \<times> pyval) list" where
  "failure_fields = [(''status'', PBool False), (''errorCode'', PStr ''E1''),
                     (''errorDescr'', PStr ''bad'')]"

definition example_decoder :: "string \<Rightarrow> pyval option" where
  "example_decoder text =
     (if text = balance_text
        then Some (PDict [(''status'', PBool True), (''returnData'', PInt 7)])
      else if text = failure_text then Some (PDict failure_fields)
      else if text = bare_failure_text then Some (PDict [(''status'', PBool False)])
      else if text = empty_data_text then Some (PDict [(''data'', PDict [])])
      else if text = no_data_text then Some (PDict [(''command'', PStr ''tickPrices'')])
      else None)"

definition example_dumps :: "(string \<times> pyval) list \<Rightarrow> string" where
  "example_dumps req = (case map_of req ''command'' of Some (PStr command) \<Rightarrow> command | _ \<Rightarrow> [])"

definition example_handler :: handler where
  "example_handler =
     \<lparr>c_encrypted = True, c_stream = False, c_bytes_out = 1024,
      c_used_addresses = [Sockaddr4 ''10.0.0.1'' 5124], c_selected = Some addr_A,
      c_socket = Some True, c_rx = [], c_tx = [], c_wire = [], c_sleeps = 0,
      h_decoder = example_decoder, h_dumps = example_dumps,
      h_ping = None, h_ping_ssid = PNone, h_log = []\<rparr>"

text \<open>A callback that finds the connection in order and returns True.\<close>

definition healthy :: "'s \<Rightarrow> (bool, 's) outcome" where
  "healthy h = Return True h"

text \<open>
  A callback that reconnects: it leaves a new socket, which takes one request and delivers
  one response.
\<close>

definition fresh_socket :: "'a handler_scheme \<Rightarrow> (bool, 'a handler_scheme) outcome" where
  "fresh_socket h =
     Return True (h\<lparr>c_socket := Some True, c_rx := [RxChunk balance_text, RxQuiet],
                     c_tx := [TxAccept 64]\<rparr>)"

text \<open>A handler whose first send finds the socket not writable and whose reads find it quiet.\<close>

definition flaky_handler :: handler where
  "flaky_handler = example_handler\<lparr>c_rx := [RxQuiet, RxQuiet], c_tx := [TxBlocked, TxAccept 64]\<rparr>"

definition ping_request :: "(string \<times> pyval) list" where
  "ping_request = [(''command'', PStr ''ping'')]"

text \<open>
  A logged-in data handler whose socket takes one request and then delivers one response,
  and the same handler after logout.
\<close>

definition example_session :: "string \<Rightarrow> data_handler" where
  "example_session text =
     \<lparr>c_encrypted = True, c_stream = False, c_bytes_out = 1024,
      c_used_addresses = [Sockaddr4 ''10.0.0.1'' 5124], c_selected = Some addr_A,
      c_socket = Some True, c_rx = [RxChunk text, RxQuiet], c_tx = [TxAccept 64],
      c_wire = [], c_sleeps = 0,
      h_decoder = example_decoder, h_dumps = example_dumps,
      h_ping = Some True, h_ping_ssid = PNone, h_log = [],
      dh_status = PStr ''active'', dh_deleted = False, dh_ssid = PStr ''token'',
      dh_stream_handlers = []\<rparr>"

definition logged_out_session :: data_handler where
  "logged_out_session = (example_session balance_text)\<lparr>dh_ssid := PNone, dh_status := PStr ''inactive''\<rparr>"

text \<open>
  A stream handler as its constructor leaves it: the keepalive task registered and the read
  loop started; the same with a second task and one packet on the socket; a store with a
  data handler and its stream handler; a manager with one registered data handler; and a
  new manager with room for one connection.
\<close>

definition keepalive_task :: task where
  "keepalive_task = \<lparr>t_command = ''KeepAlive'', t_arguments = []\<rparr>"

definition ticks_task :: task where
  "ticks_task = \<lparr>t_command = ''TickPrices'', t_arguments = [(''symbol'', PStr ''EURUSD'')]\<rparr>"

definition example_stream :: stream_handler where
  "example_stream =
     \<lparr>c_encrypted = True, c_stream = True, c_bytes_out = 1024,
      c_used_addresses = [Sockaddr4 ''10.0.0.1'' 5125], c_selected = Some addr_A,
      c_socket = Some True, c_rx = [], c_tx = [TxAccept 64, TxAccept 64],
      c_wire = [], c_sleeps = 0,
      h_decoder = example_decoder, h_dumps = example_dumps,
      h_ping = Some True, h_ping_ssid = PStr ''token'', h_log = [],
      sh_dh = 0, sh_ssid = PStr ''token'', sh_status = PStr ''active'', sh_deleted = False,
      sh_tasks = [(0, keepalive_task)], sh_stream = Some True\<rparr>"

definition two_task_stream :: "string \<Rightarrow> stream_handler" where
  "two_task_stream text =
     example_stream\<lparr>c_rx := [RxChunk text], sh_tasks := [(0, keepalive_task), (1, ticks_task)]\<rparr>"

definition example_world :: world where
  "example_world =
     \<lparr>w_data = [0 \<mapsto> (example_session balance_text)\<lparr>dh_stream_handlers := [1]\<rparr>],
      w_stream = [1 \<mapsto> example_stream], w_next = 2\<rparr>"

definition example_manager :: manager where
  "example_manager =
     \<lparr>w_data = [0 \<mapsto> example_session balance_text], w_stream = Map.empty, w_next = 1,
      m_data = [(0, ''DH_0'')], m_stream = [], m_max_streams = 5, m_max_connections = 2,
      m_connections = 1, m_deleted = False\<rparr>"

definition empty_manager :: manager where
  "empty_manager =
     \<lparr>w_data = Map.empty, w_stream = Map.empty, w_next = 0,
      m_data = [], m_stream = [], m_max_streams = 5, m_max_connections = 1,
      m_connections = 0, m_deleted = False\<rparr>"

section \<open>Properties of the transport\<close>

text \<open>
  The test \<open>address[4] not in tried_addresses\<close> never fails: a sockaddr tuple has two or
  four components and an address tuple has five.
\<close>

lemma sockaddr_not_in_tried: "\<not> py_in (pv_sockaddr s) (map pv_addrinfo tried)"
  by (cases s) (auto simp: py_in_def pv_addrinfo_def)

lemma pick_fresh_ignores_tried:
  "pick_fresh avl tried used = find (\<lambda>a. ai_sockaddr a \<notin> set used) avl"
proof -
  have "inj pv_sockaddr"
  proof (rule injI)
    fix x y assume "pv_sockaddr x = pv_sockaddr y"
    then show "x = y" by (cases x; cases y) auto
  qed
  then have "py_in (pv_sockaddr s) (map pv_sockaddr used) = (s \<in> set used)" for s
    by (auto simp: py_in_def inj_def)
  then show ?thesis by (simp add: pick_fresh_def sockaddr_not_in_tried)
qed

lemma pick_untried_first: "avl \<noteq> [] \<Longrightarrow> pick_untried avl tried = Some (hd avl)"
  by (cases avl) (simp_all add: pick_untried_def sockaddr_not_in_tried)

text \<open>
  With no address used before and every socket creation failing, the loop tries the first
  candidate as many times as there are candidates.
\<close>

lemma create_loop_all_fail:
  assumes "c_used_addresses c = []" and "avl \<noteq> []" and "length tried \<le> length avl"
  shows "create_loop (\<lambda>k a. SocketError) avl k tried c
           = Some (Inr (False, tried @ replicate (length avl - length tried) (hd avl),
                (if length tried < length avl then c\<lparr>c_selected := Some (hd avl)\<rparr> else c)
                  \<lparr>c_used_addresses := []\<rparr>))"
  using assms
proof (induction "length avl - length tried" arbitrary: tried k c)
  case 0
  then show ?case by (subst create_loop.simps) simp
next
  case (Suc n)
  then have lt: "length tried < length avl" by simp
  have sel: "select_address avl tried (c_used_addresses c) = tried @ [hd avl]"
    using Suc.prems lt by (cases avl) (simp_all add: select_address_def pick_fresh_ignores_tried)
  let ?c1 = "c\<lparr>c_selected := Some (hd avl)\<rparr>"
  have n: "n = length avl - length (tried @ [hd avl])" using Suc.hyps(2) by simp
  have ih: "create_loop (\<lambda>k a. SocketError) avl (Suc k) (tried @ [hd avl]) ?c1
           = Some (Inr (False, (tried @ [hd avl]) @ replicate (length avl - length (tried @ [hd avl])) (hd avl),
                (if length (tried @ [hd avl]) < length avl then ?c1\<lparr>c_selected := Some (hd avl)\<rparr> else ?c1)
                  \<lparr>c_used_addresses := []\<rparr>))"
    using Suc.hyps(1) [OF n, of ?c1 "Suc k"] Suc.prems lt by simp
  have r: "replicate (length avl - length tried) (hd avl)
             = hd avl # replicate (length avl - Suc (length tried)) (hd avl)"
    using lt by (metis Suc_diff_Suc replicate_Suc)
  show ?case
    using lt sel ih r by (subst create_loop.simps) (simp add: Let_def)
qed

text \<open>\<open>create\<close> always comes back: every pass that does not raise adds to \<open>tried_addresses\<close>.\<close>

lemma create_returns:
  "\<exists>r. create resolved env c = Some r"
proof (cases resolved)
  case None
  then show ?thesis by (simp add: create_def)
next
  case (Some avl)
  let ?F = "find (\<lambda>a. ai_sockaddr a \<notin> set (c_used_addresses c)) avl"
  have loop: "\<exists>r. create_loop env avl k tried c' = Some r"
    if "c_used_addresses c' = c_used_addresses c"
      and "tried \<noteq> [] \<longrightarrow> ?F \<noteq> None \<or> length avl \<le> length (c_used_addresses c) + length tried"
    for k tried and c' :: "'a client_scheme"
    using that
  proof (induction "length avl - length tried" arbitrary: tried k c')
    case 0
    then show ?case by (subst create_loop.simps) simp
  next
    case (Suc n)
    then have lt: "length tried < length avl" by simp
    then have ne: "avl \<noteq> []" by auto
    let ?t = "select_address avl tried (c_used_addresses c')"
    show ?case
    proof (cases "?t = []")
      case True
      then show ?thesis using lt by (subst create_loop.simps) (simp add: Let_def)
    next
      case False
      have grows: "\<exists>a. ?t = tried @ [a]"
      proof (cases "length (c_used_addresses c') + length tried < length avl")
        case True
        show ?thesis
        proof (cases ?F)
          case None
          then have "?t = tried"
            using True Suc.prems(1) by (simp add: select_address_def pick_fresh_ignores_tried)
          then have "tried \<noteq> []" using False by simp
          then show ?thesis using Suc.prems None True by simp
        next
          case (Some a)
          then show ?thesis
            using True Suc.prems(1) by (simp add: select_address_def pick_fresh_ignores_tried)
        qed
      next
        case False
        then show ?thesis using ne by (simp add: select_address_def pick_untried_first)
      qed
      then obtain a where t: "?t = tried @ [a]" by blast
      have inv: "?t \<noteq> [] \<longrightarrow> ?F \<noteq> None \<or> length avl \<le> length (c_used_addresses c) + length ?t"
      proof (cases "length (c_used_addresses c') + length tried < length avl")
        case True
        then have "?F \<noteq> None \<or> ?t = tried"
          using Suc.prems(1) by (auto simp: select_address_def pick_fresh_ignores_tried split: option.splits)
        then show ?thesis using t by auto
      next
        case False
        then show ?thesis using t Suc.prems(1) by simp
      qed
      have n: "n = length avl - length ?t" using Suc.hyps(2) t by simp
      have ih: "\<exists>r. create_loop env avl (Suc k) ?t c'' = Some r"
        if "c_used_addresses c'' = c_used_addresses c" for c'' :: "'a client_scheme"
        using Suc.hyps(1) [OF n that inv] .
      have ih1: "\<exists>r. create_loop env avl (Suc k) ?t (c'\<lparr>c_selected := Some (last ?t)\<rparr>) = Some r"
        using ih [of "c'\<lparr>c_selected := Some (last ?t)\<rparr>"] Suc.prems(1) by simp
      have ih2: "\<exists>r. create_loop env avl (Suc k) ?t (c'\<lparr>c_selected := Some (last ?t), c_socket := Some True\<rparr>) = Some r"
        using ih [of "c'\<lparr>c_selected := Some (last ?t), c_socket := Some True\<rparr>"] Suc.prems(1) by simp
      show ?thesis
        using lt False ih1 ih2
        by (subst create_loop.simps) (auto simp: Let_def split: attempt.splits)
    qed
  qed
  show ?thesis using Some loop [of c "[]" 0] by (simp add: create_def)
qed

text \<open>
  C1. The claim: one call of \<open>create\<close> tries each candidate at most once, prefers unused
  candidates, and clears the used list and returns False when every candidate failed.
  The code at two candidates, none used before, with every socket creation failing: the
  first candidate is tried twice and the second never, before the used list is cleared and
  False returned.
\<close>

theorem create_retries_first_candidate:
  "create (Some [addr_A, addr_B]) (\<lambda>k a. SocketError) fresh_client
     = Some (Inr (False, [addr_A, addr_A], fresh_client\<lparr>c_selected := Some addr_A\<rparr>))"
  by (simp add: create_def create_loop.simps select_address_def pick_fresh_def pick_untried_def
        py_in_def pv_addrinfo_def addr_A_def addr_B_def fresh_client_def)

section \<open>Properties of the protocol channel\<close>

subsection \<open>What the transport leaves alone\<close>

lemma send_loop_log: "h_log (outcome_state (send_loop msg sent script h)) = h_log h"
  by (induction msg sent script h rule: send_loop.induct)
     (subst send_loop.simps, auto split: list.splits tx.splits simp: Let_def)

lemma receive_loop_log: "h_log (outcome_state (receive_loop full script h)) = h_log h"
  by (induction full script h rule: receive_loop.induct) auto

lemma send_log: "h_log (outcome_state (send msg h)) = h_log h"
  by (simp add: send_def send_loop_log)

lemma receive_log: "h_log (outcome_state (receive h)) = h_log h"
  by (simp add: receive_def receive_loop_log)

lemma send_request_log:
  "h_log (outcome_state (send_request command stream arguments tag h))
     = h_log h @ [EvRequest (request_dict command stream arguments tag)]"
  by (simp add: send_request_def send_log Let_def)

lemma receive_response_log:
  "h_log (outcome_state (receive_response h)) = h_log h @ [EvReceive]"
  using receive_log [of "h\<lparr>h_log := h_log h @ [EvReceive]\<rparr>"]
  by (auto simp: receive_response_def split: outcome.splits pyval.splits option.splits)

lemma check_status_state: "outcome_state (check_status data response h) = h"
  by (auto simp: check_status_def split: sum.splits)

lemma call_reconnect_log:
  "h_log (outcome_state (call_reconnect cb h)) = h_log h @ (if cb = None then [] else [EvReconnect])"
  by (auto simp: call_reconnect_def split: option.splits outcome.splits)

subsection \<open>The retry policy\<close>

lemma handler_request_once: "handler_request cb False c s a t h = send_request c s a t h"
  by (subst handler_request.simps) (auto split: outcome.splits)

lemma handler_request_again:
  assumes "send_request c s a t h = Return False h1" and "cb = Some f" and "f h1 = Return r h2"
  shows "handler_request cb True c s a t h
           = send_request c s a t (h2\<lparr>h_log := h_log h1 @ [EvReconnect]\<rparr>)"
  using assms by (subst handler_request.simps) (simp add: call_reconnect_def handler_request_once)

lemma handler_request_log:
  "\<exists>evs. h_log (outcome_state (handler_request cb retry c s a t h)) = h_log h @ evs
         \<and> reconnects evs \<le> (if retry then 1 else 0)"
proof -
  have once: "h_log (outcome_state (send_request c s a t h'))
                = h_log h' @ [EvRequest (request_dict c s a t)]"
    for h' :: "'a handler_scheme"
    by (rule send_request_log)
  show ?thesis
  proof (cases retry)
    case False
    then show ?thesis using once [of h] by (simp add: handler_request_once reconnects_def)
  next
    case True
    show ?thesis
    proof (cases "send_request c s a t h")
      case (Return ok h1)
      then have l1: "h_log h1 = h_log h @ [EvRequest (request_dict c s a t)]"
        using once [of h] by simp
      show ?thesis
      proof (cases ok)
        case True
        then show ?thesis using Return l1 \<open>retry\<close>
          by (subst handler_request.simps) (simp add: reconnects_def)
      next
        case False
        have l2: "h_log (outcome_state (call_reconnect cb h1))
                    = h_log h1 @ (if cb = None then [] else [EvReconnect])"
          by (rule call_reconnect_log)
        show ?thesis
        proof (cases "call_reconnect cb h1")
          case (Return u h2)
          have "handler_request cb retry c s a t h = send_request c s a t h2"
            using \<open>retry\<close> \<open>send_request c s a t h = Return ok h1\<close> False Return
            by (subst handler_request.simps) (simp add: handler_request_once)
          then show ?thesis using once [of h2] l1 l2 Return \<open>retry\<close>
            by (auto simp: reconnects_def)
        next
          case (Raise e h2)
          have "handler_request cb retry c s a t h = Raise e h2"
            using \<open>retry\<close> \<open>send_request c s a t h = Return ok h1\<close> False Raise
            by (subst handler_request.simps) simp
          then show ?thesis using l1 l2 Raise \<open>retry\<close> by (auto simp: reconnects_def)
        next
          case (Hang h2)
          have "handler_request cb retry c s a t h = Hang h2"
            using \<open>retry\<close> \<open>send_request c s a t h = Return ok h1\<close> False Hang
            by (subst handler_request.simps) simp
          then show ?thesis using l1 l2 Hang \<open>retry\<close> by (auto simp: reconnects_def)
        qed
      qed
    next
      case (Raise e h1)
      then show ?thesis using once [of h] \<open>retry\<close>
        by (subst handler_request.simps) (simp add: reconnects_def)
    next
      case (Hang h1)
      then show ?thesis using once [of h] \<open>retry\<close>
        by (subst handler_request.simps) (simp add: reconnects_def)
    qed
  qed
qed

lemma handler_receive_once:
  "handler_receive cb False data h =
     (case receive_response h of
        Return response h1 \<Rightarrow>
          if \<not> truthy response then Return (PBool False) h1 else check_status data response h1
      | Raise e h1 \<Rightarrow> Raise e h1
      | Hang h1 \<Rightarrow> Hang h1)"
  by (subst handler_receive.simps) (auto split: outcome.splits)

lemma handler_receive_again:
  assumes "receive_response h = Return response h1" and "\<not> truthy response"
    and "cb = Some f" and "f h1 = Return r h2"
  shows "handler_receive cb True data h
           = handler_receive cb False data (h2\<lparr>h_log := h_log h1 @ [EvReconnect]\<rparr>)"
  using assms by (subst handler_receive.simps) (simp add: call_reconnect_def)

lemma handler_receive_once_log:
  "h_log (outcome_state (handler_receive cb False data h)) = h_log h @ [EvReceive]"
  using receive_response_log [of h]
  by (auto simp: handler_receive_once check_status_state split: outcome.splits)

lemma handler_receive_log:
  "\<exists>evs. h_log (outcome_state (handler_receive cb retry data h)) = h_log h @ evs
         \<and> reconnects evs \<le> (if retry then 1 else 0)"
proof (cases retry)
  case False
  then show ?thesis by (simp add: handler_receive_once_log reconnects_def)
next
  case True
  show ?thesis
  proof (cases "receive_response h")
    case (Return response h1)
    then have l1: "h_log h1 = h_log h @ [EvReceive]" using receive_response_log [of h] by simp
    show ?thesis
    proof (cases "truthy response")
      case True
      then show ?thesis using Return l1 \<open>retry\<close>
        by (subst handler_receive.simps) (simp add: check_status_state reconnects_def)
    next
      case False
      have l2: "h_log (outcome_state (call_reconnect cb h1))
                  = h_log h1 @ (if cb = None then [] else [EvReconnect])"
        by (rule call_reconnect_log)
      show ?thesis
      proof (cases "call_reconnect cb h1")
        case (Return u h2)
        have "handler_receive cb retry data h = handler_receive cb False data h2"
          using \<open>retry\<close> \<open>receive_response h = Return response h1\<close> False Return
          by (subst handler_receive.simps) simp
        then show ?thesis using handler_receive_once_log [of cb data h2] l1 l2 Return \<open>retry\<close>
          by (auto simp: reconnects_def)
      next
        case (Raise e h2)
        have "handler_receive cb retry data h = Raise e h2"
          using \<open>retry\<close> \<open>receive_response h = Return response h1\<close> False Raise
          by (subst handler_receive.simps) simp
        then show ?thesis using l1 l2 Raise \<open>retry\<close> by (auto simp: reconnects_def)
      next
        case (Hang h2)
        have "handler_receive cb retry data h = Hang h2"
          using \<open>retry\<close> \<open>receive_response h = Return response h1\<close> False Hang
          by (subst handler_receive.simps) simp
        then show ?thesis using l1 l2 Hang \<open>retry\<close> by (auto simp: reconnects_def)
      qed
    qed
  next
    case (Raise e h1)
    then show ?thesis using receive_response_log [of h] \<open>retry\<close>
      by (subst handler_receive.simps) (simp add: reconnects_def)
  next
    case (Hang h1)
    then show ?thesis using receive_response_log [of h] \<open>retry\<close>
      by (subst handler_receive.simps) (simp add: reconnects_def)
  qed
qed

lemma reconnects_request_le:
  "reconnects (events_since h (handler_request cb retry c s a t h)) \<le> (if retry then 1 else 0)"
  using handler_request_log [of cb retry c s a t h] by (auto simp: events_since_def)

lemma reconnects_receive_le:
  "reconnects (events_since h (handler_receive cb retry data h)) \<le> (if retry then 1 else 0)"
  using handler_receive_log [of cb retry data h] by (auto simp: events_since_def)

lemma request_retry_events:
  assumes "send_request c s a t h = Return False h1" and "cb = Some f" and "f h1 = Return r h2"
  shows "events_since h (handler_request cb True c s a t h)
           = [EvRequest (request_dict c s a t), EvReconnect, EvRequest (request_dict c s a t)]"
proof -
  let ?h2 = "h2\<lparr>h_log := h_log h1 @ [EvReconnect]\<rparr>"
  have l1: "h_log h1 = h_log h @ [EvRequest (request_dict c s a t)]"
    using send_request_log [of c s a t h] assms(1) by simp
  have "h_log (outcome_state (send_request c s a t ?h2))
          = h_log ?h2 @ [EvRequest (request_dict c s a t)]"
    by (rule send_request_log)
  then show ?thesis
    using l1 by (simp add: handler_request_again [OF assms] events_since_def)
qed

lemma receive_retry_events:
  assumes "receive_response h = Return response h1" and "\<not> truthy response"
    and "cb = Some f" and "f h1 = Return r h2"
  shows "events_since h (handler_receive cb True data h) = [EvReceive, EvReconnect, EvReceive]"
proof -
  let ?h2 = "h2\<lparr>h_log := h_log h1 @ [EvReconnect]\<rparr>"
  have l1: "h_log h1 = h_log h @ [EvReceive]"
    using receive_response_log [of h] assms(1) by simp
  show ?thesis
    using l1 handler_receive_once_log [of cb data ?h2]
    by (simp add: handler_receive_again [OF assms] events_since_def)
qed

text \<open>
  What holds of the retry policy, for a failure that the attempt reports by its value.
  When the first \<open>_send_request\<close> returns False, \<open>retry=False\<close> returns False at once;
  with \<open>retry=True\<close> and a callback that returns, the call is the second attempt, run on
  the state the callback left, and the entries are the request, one reconnect, the request
  again. The same holds for \<open>_receive\<close> when the first \<open>_receive_response\<close> is falsy. No
  call of either method, however it ends, logs more than one reconnect, and none with
  \<open>retry=False\<close>.
\<close>

lemma retry_on_reported_failure:
  fixes h :: "'a handler_scheme"
  shows
    "(send_request c s a t h = Return False h1 \<longrightarrow>
        handler_request cb False c s a t h = Return False h1
        \<and> (cb = Some f \<and> f h1 = Return r h2 \<longrightarrow>
             handler_request cb True c s a t h
               = send_request c s a t (h2\<lparr>h_log := h_log h1 @ [EvReconnect]\<rparr>)
             \<and> events_since h (handler_request cb True c s a t h)
               = [EvRequest (request_dict c s a t), EvReconnect, EvRequest (request_dict c s a t)]))
     \<and> (receive_response h = Return response g1 \<and> \<not> truthy response \<longrightarrow>
        handler_receive cb False data h = Return (PBool False) g1
        \<and> (cb = Some f \<and> f g1 = Return r' g2 \<longrightarrow>
             handler_receive cb True data h
               = handler_receive cb False data (g2\<lparr>h_log := h_log g1 @ [EvReconnect]\<rparr>)
             \<and> events_since h (handler_receive cb True data h)
               = [EvReceive, EvReconnect, EvReceive]))
     \<and> reconnects (events_since h (handler_request cb retry c s a t h)) \<le> 1
     \<and> reconnects (events_since h (handler_receive cb retry data h)) \<le> 1
     \<and> reconnects (events_since h (handler_request cb False c s a t h)) = 0
     \<and> reconnects (events_since h (handler_receive cb False data h)) = 0"
proof -
  have 1: "reconnects (events_since h (handler_request cb retry c s a t h)) \<le> 1"
    using reconnects_request_le [of h cb retry c s a t] by (simp split: if_splits)
  have 2: "reconnects (events_since h (handler_receive cb retry data h)) \<le> 1"
    using reconnects_receive_le [of h cb retry data] by (simp split: if_splits)
  have 3: "reconnects (events_since h (handler_request cb False c s a t h)) = 0"
    using reconnects_request_le [of h cb False c s a t] by simp
  have 4: "reconnects (events_since h (handler_receive cb False data h)) = 0"
    using reconnects_receive_le [of h cb False data] by simp
  show ?thesis
    using 1 2 3 4 request_retry_events [of c s a t h h1 cb f r h2]
      receive_retry_events [of h response g1 cb f r' g2 data]
      handler_request_again [of c s a t h h1 cb f r h2]
      handler_receive_again [of h response g1 cb f r' g2 data]
    by (simp add: handler_request_once handler_receive_once)
qed

text \<open>
  The same on an example: the first send finds the socket not writable, the callback
  opens a new socket, and the second attempt writes the request to that socket.
\<close>

lemma retry_on_reported_failure_example:
  "handler_request (Some fresh_socket) True ''ping'' PNone None PNone flaky_handler
     = Return True
         (flaky_handler\<lparr>c_rx := [RxChunk balance_text, RxQuiet], c_tx := [],
            c_wire := [''ping''], c_sleeps := 1,
            h_log := [EvRequest ping_request, EvReconnect, EvRequest ping_request]\<rparr>)"
  by (simp add: handler_request.simps call_reconnect_def fresh_socket_def send_request_def
        request_dict_def send_def send_loop.simps flaky_handler_def example_handler_def
        example_dumps_def ping_request_def Let_def)

text \<open>
  C2. The claim: with \<open>retry=True\<close> a transport-level failure of \<open>_request\<close> or
  \<open>_receive\<close> makes the reconnect callback run exactly once, followed by exactly one more
  attempt. The code on a frame whose bytes do not decode as UTF-8 (a damaged frame, or a
  character of several bytes cut by the end of a chunk): \<open>decode\<close> stands outside the
  \<open>try\<close> of \<open>receive\<close>, and neither \<open>_receive_response\<close> nor \<open>_receive\<close> catches the
  UnicodeDecodeError, so \<open>_receive\<close> with \<open>retry=True\<close> ends after one receive, with no
  reconnect and no second attempt. On the same handler a \<open>recv\<close> that raises is caught:
  the callback runs once and the second attempt reads the response from the new socket.
\<close>

theorem undecodable_frame_skips_reconnect:
  "handler_receive (Some fresh_socket) True True (example_handler\<lparr>c_rx := [RxBadChunk]\<rparr>)
     = Raise UnicodeDecodeError (example_handler\<lparr>c_rx := [], h_log := [EvReceive]\<rparr>)
   \<and> handler_receive (Some fresh_socket) True True (example_handler\<lparr>c_rx := [RxError]\<rparr>)
     = Return (PDict [(''status'', PBool True), (''returnData'', PInt 7)])
         (example_handler\<lparr>c_rx := [], c_tx := [TxAccept 64], c_sleeps := 1,
            h_log := [EvReceive, EvReconnect, EvReceive]\<rparr>)"
  by (simp add: handler_receive.simps receive_response_def receive_def call_reconnect_def
        fresh_socket_def check_status_def example_handler_def example_decoder_def
        balance_text_def)

subsection \<open>Frames\<close>

lemma send_loop_frame: "strip_io (outcome_state (send_loop msg sent script c)) = strip_io c"
  by (induction msg sent script c rule: send_loop.induct)
     (subst send_loop.simps, auto simp: strip_io_def Let_def split: list.splits tx.splits)

lemma receive_loop_frame: "strip_io (outcome_state (receive_loop full script c)) = strip_io c"
  by (induction full script c rule: receive_loop.induct) (auto simp: strip_io_def)

lemma strip_io_status:
  fixes a b :: "'a data_handler_scheme"
  assumes "strip_io a = strip_io b"
  shows "dh_status a = dh_status b"
proof -
  have "dh_status (strip_io a) = dh_status (strip_io b)" using assms by simp
  then show ?thesis by (simp add: strip_io_def)
qed

lemma send_request_status:
  fixes dh :: "'a data_handler_scheme"
  shows "dh_status (outcome_state (send_request c s a t dh)) = dh_status dh"
proof -
  have "strip_io (outcome_state (send_request c s a t dh))
          = strip_io (dh\<lparr>h_log := h_log dh @ [EvRequest (request_dict c s a t)]\<rparr>)"
    by (simp add: send_request_def send_def send_loop_frame Let_def)
  from strip_io_status [OF this] show ?thesis by simp
qed

lemma receive_response_state:
  "receive_response h = Return response h1 \<Longrightarrow> strip_io h1 = strip_io (h\<lparr>h_log := h_log h @ [EvReceive]\<rparr>)"
  using receive_loop_frame [of "[]" "c_rx h" "h\<lparr>h_log := h_log h @ [EvReceive]\<rparr>"]
  by (auto simp: receive_response_def receive_def split: outcome.splits if_splits pyval.splits option.splits)

lemma receive_response_status:
  fixes dh :: "'a data_handler_scheme"
  assumes "receive_response dh = Return response dh1"
  shows "dh_status dh1 = dh_status dh"
  using strip_io_status [OF receive_response_state [OF assms]] by simp

lemma handler_receive_cong:
  assumes "receive_response h = receive_response h'"
  shows "handler_receive cb retry data h = handler_receive cb retry data h'"
  using handler_receive.simps [of cb retry data h] handler_receive.simps [of cb retry data h'] assms
  by simp

subsection \<open>A quiet socket\<close>

text \<open>
  C10. In non-streaming mode, when the first poll finds nothing to read, \<open>receive\<close>
  returns the empty text after that one poll, without a sleep. \<open>_receive_response\<close> turns
  it into False, and the whole outcome is the one of a socket whose \<open>recv\<close> raised on that
  poll: \<open>_receive\<close> cannot tell them apart, and with \<open>retry\<close> set it calls the reconnect
  callback.
\<close>

theorem quiet_socket_counts_as_failure:
  fixes h :: "'a handler_scheme"
  assumes "\<not> c_stream h" and "c_rx h = RxQuiet # rest"
  shows "receive h = Return (PStr []) (h\<lparr>c_rx := rest\<rparr>)
       \<and> c_sleeps (outcome_state (receive h)) = c_sleeps h
       \<and> receive_response h = Return (PBool False) (h\<lparr>c_rx := rest, h_log := h_log h @ [EvReceive]\<rparr>)
       \<and> receive_response (h\<lparr>c_rx := RxError # rest\<rparr>) = receive_response h
       \<and> handler_receive cb retry data (h\<lparr>c_rx := RxError # rest\<rparr>) = handler_receive cb retry data h
       \<and> reconnects (events_since h (handler_receive (Some f) True data h)) = 1"
proof -
  have r: "receive h = Return (PStr []) (h\<lparr>c_rx := rest\<rparr>)"
    using assms by (simp add: receive_def)
  have rr: "receive_response h = Return (PBool False) (h\<lparr>c_rx := rest, h_log := h_log h @ [EvReceive]\<rparr>)"
    using assms by (simp add: receive_response_def receive_def)
  have re: "receive_response (h\<lparr>c_rx := RxError # rest\<rparr>) = receive_response h"
    using assms by (simp add: receive_response_def receive_def)
  have hr: "handler_receive cb retry data (h\<lparr>c_rx := RxError # rest\<rparr>) = handler_receive cb retry data h"
    by (rule handler_receive_cong [OF re])
  have "h_log (outcome_state (handler_receive (Some f) True data h))
          = h_log h @ [EvReceive, EvReconnect] @
            (case f (h\<lparr>c_rx := rest, h_log := h_log h @ [EvReceive]\<rparr>) of Return u h2 \<Rightarrow> [EvReceive] | _ \<Rightarrow> [])"
    using handler_receive_once_log [of "Some f" data]
    by (subst handler_receive.simps) (auto simp: rr call_reconnect_def split: outcome.splits)
  then have "reconnects (events_since h (handler_receive (Some f) True data h)) = 1"
    by (auto simp: events_since_def reconnects_def split: outcome.splits)
  then show ?thesis using r rr re hr by simp
qed


theorem quiet_socket_counts_as_failure_witness:
  "\<not> c_stream flaky_handler \<and> c_rx flaky_handler = RxQuiet # [RxQuiet]
   \<and> receive flaky_handler = Return (PStr []) (flaky_handler\<lparr>c_rx := [RxQuiet]\<rparr>)
   \<and> c_sleeps (outcome_state (receive flaky_handler)) = 0
   \<and> receive_response flaky_handler
       = Return (PBool False) (flaky_handler\<lparr>c_rx := [RxQuiet], h_log := [EvReceive]\<rparr>)
   \<and> receive_response (flaky_handler\<lparr>c_rx := [RxError, RxQuiet]\<rparr>) = receive_response flaky_handler
   \<and> reconnects (events_since flaky_handler (handler_receive (Some healthy) True True flaky_handler)) = 1"
proof -
  have a: "\<not> c_stream flaky_handler" and b: "c_rx flaky_handler = RxQuiet # [RxQuiet]"
    by (simp_all add: flaky_handler_def example_handler_def)
  show ?thesis
    using quiet_socket_counts_as_failure [OF a b, of "Some healthy" True True healthy] a b
    by (simp add: flaky_handler_def example_handler_def)
qed

subsection \<open>A response with a false status\<close>

lemma check_status_false:
  assumes "map_of kvs ''status'' = Some (PBool False)"
    and "map_of kvs ''errorCode'' = Some code" and "map_of kvs ''errorDescr'' = Some descr"
  shows "check_status True (PDict kvs) h = Return (PBool False) h"
proof -
  have "''status'' \<in> set (map fst kvs)"
    using assms(1) by (metis map_of_eq_None_iff option.distinct(1) set_map)
  then show ?thesis using assms by (simp add: check_status_def)
qed

lemma truthy_status_dict:
  assumes "map_of kvs ''status'' = Some v"
  shows "truthy (PDict kvs)"
  using assms by (cases kvs) auto

text \<open>
  What holds for a decoded response whose \<open>status\<close> is false and which carries
  \<open>errorCode\<close> and \<open>errorDescr\<close>: \<open>_receive\<close> with the data flag returns False after the one
  receive that read it, without a call of the reconnect callback; and when \<open>getData\<close> on an
  active handler sends its request and reads such a response, each at the first attempt,
  it returns False with the status still \<open>'active'\<close> and no reconnect.
\<close>

lemma status_false_with_error_fields:
  fixes h :: "'a handler_scheme" and dh :: "'b data_handler_scheme"
  assumes "map_of kvs ''status'' = Some (PBool False)"
    and "map_of kvs ''errorCode'' = Some code" and "map_of kvs ''errorDescr'' = Some descr"
  shows "(receive_response h = Return (PDict kvs) h1 \<longrightarrow>
            handler_receive cb retry True h = Return (PBool False) h1
            \<and> events_since h (handler_receive cb retry True h) = [EvReceive])
       \<and> (truthy (dh_ssid dh) \<and> dh_status dh = PStr ''active''
            \<and> send_request (''get'' @ command) PNone
                  (if kwargs \<noteq> [] then Some [(''arguments'', PDict kwargs)] else None) PNone dh
                = Return True dh1
            \<and> receive_response dh1 = Return (PDict kvs) dh2 \<longrightarrow>
            getData cb' command kwargs dh = Return (PBool False) dh2
            \<and> dh_status dh2 = PStr ''active''
            \<and> reconnects (events_since dh (getData cb' command kwargs dh)) = 0)"
proof -
  have t: "truthy (PDict kvs)" using assms(1) by (rule truthy_status_dict)
  have recv: "handler_receive cb'' r True g = Return (PBool False) g1"
    if "receive_response g = Return (PDict kvs) g1"
    for cb'' r and g g1 :: "'c handler_scheme"
    using that t check_status_false [OF assms]
    by (subst handler_receive.simps) simp
  have 1: "receive_response h = Return (PDict kvs) h1 \<longrightarrow>
            handler_receive cb retry True h = Return (PBool False) h1
            \<and> events_since h (handler_receive cb retry True h) = [EvReceive]"
  proof
    assume a: "receive_response h = Return (PDict kvs) h1"
    have "h_log h1 = h_log h @ [EvReceive]" using receive_response_log [of h] a by simp
    then show "handler_receive cb retry True h = Return (PBool False) h1
            \<and> events_since h (handler_receive cb retry True h) = [EvReceive]"
      using recv [OF a] by (simp add: events_since_def)
  qed
  have 2: "getData cb' command kwargs dh = Return (PBool False) dh2
            \<and> dh_status dh2 = PStr ''active''
            \<and> reconnects (events_since dh (getData cb' command kwargs dh)) = 0"
    if a: "truthy (dh_ssid dh)" and st: "dh_status dh = PStr ''active''"
      and b: "send_request (''get'' @ command) PNone
                  (if kwargs \<noteq> [] then Some [(''arguments'', PDict kwargs)] else None) PNone dh
                = Return True dh1"
      and c: "receive_response dh1 = Return (PDict kvs) dh2"
  proof -
    let ?args = "if kwargs \<noteq> [] then Some [(''arguments'', PDict kwargs)] else None"
    have req: "handler_request cb' True (''get'' @ command) PNone ?args PNone dh = Return True dh1"
      using b by (subst handler_request.simps) simp
    have g: "getData cb' command kwargs dh = Return (PBool False) dh2"
      using a req recv [OF c] by (simp add: getData_def)
    have s1: "dh_status dh1 = dh_status dh"
      using send_request_status [of "''get'' @ command" PNone ?args PNone dh] b by simp
    have s2: "dh_status dh2 = dh_status dh1" using receive_response_status [OF c] .
    have l1: "h_log dh1 = h_log dh @ [EvRequest (request_dict (''get'' @ command) PNone ?args PNone)]"
      using send_request_log [of "''get'' @ command" PNone ?args PNone dh] b by simp
    have l2: "h_log dh2 = h_log dh1 @ [EvReceive]"
      using receive_response_log [of dh1] c by simp
    show ?thesis using g s1 s2 st l1 l2 by (simp add: events_since_def reconnects_def)
  qed
  show ?thesis using 1 2 by blast
qed


lemma status_false_with_error_fields_example:
  "map_of failure_fields ''status'' = Some (PBool False)
   \<and> map_of failure_fields ''errorCode'' = Some (PStr ''E1'')
   \<and> map_of failure_fields ''errorDescr'' = Some (PStr ''bad'')
   \<and> receive_response (example_session failure_text)
       = Return (PDict failure_fields)
           ((example_session failure_text)\<lparr>c_rx := [], c_sleeps := 1, h_log := [EvReceive]\<rparr>)
   \<and> handler_receive (Some healthy) True True (example_session failure_text)
       = Return (PBool False)
           ((example_session failure_text)\<lparr>c_rx := [], c_sleeps := 1, h_log := [EvReceive]\<rparr>)
   \<and> getData (Some healthy) ''Balance'' [] (example_session failure_text)
       = Return (PBool False)
           ((example_session failure_text)
              \<lparr>c_rx := [], c_tx := [], c_wire := [''getBalance''], c_sleeps := 2,
               h_log := [EvRequest [(''command'', PStr ''getBalance'')], EvReceive]\<rparr>)
   \<and> dh_status (outcome_state (getData (Some healthy) ''Balance'' [] (example_session failure_text)))
       = PStr ''active''"
proof -
  let ?dh = "example_session failure_text"
  let ?dh1 = "?dh\<lparr>c_tx := [], c_wire := [''getBalance''], c_sleeps := 1,
                   h_log := [EvRequest [(''command'', PStr ''getBalance'')]]\<rparr>"
  let ?dh2 = "?dh\<lparr>c_rx := [], c_tx := [], c_wire := [''getBalance''], c_sleeps := 2,
                   h_log := [EvRequest [(''command'', PStr ''getBalance'')], EvReceive]\<rparr>"
  have f: "map_of failure_fields ''status'' = Some (PBool False)"
      "map_of failure_fields ''errorCode'' = Some (PStr ''E1'')"
      "map_of failure_fields ''errorDescr'' = Some (PStr ''bad'')"
    by (simp_all add: failure_fields_def)
  have r0: "receive_response ?dh = Return (PDict failure_fields) (?dh\<lparr>c_rx := [], c_sleeps := 1, h_log := [EvReceive]\<rparr>)"
    by (simp add: receive_response_def receive_def example_session_def example_decoder_def
          failure_fields_def balance_text_def failure_text_def)
  have s: "send_request (''get'' @ ''Balance'') PNone
             (if [] \<noteq> ([] :: (string \<times> pyval) list) then Some [(''arguments'', PDict [])] else None) PNone ?dh
           = Return True ?dh1"
    by (simp add: send_request_def request_dict_def send_def send_loop.simps example_session_def
          example_dumps_def)
  have r: "receive_response ?dh1 = Return (PDict failure_fields) ?dh2"
    by (simp add: receive_response_def receive_def example_session_def example_decoder_def
          failure_fields_def balance_text_def failure_text_def)
  have a: "truthy (dh_ssid ?dh)" "dh_status ?dh = PStr ''active''"
    by (simp_all add: example_session_def)
  show ?thesis
    using status_false_with_error_fields [OF f, where h = ?dh
        and ?h1.0 = "?dh\<lparr>c_rx := [], c_sleeps := 1, h_log := [EvReceive]\<rparr>"
        and cb = "Some healthy" and retry = True
        and dh = ?dh and command = "''Balance''" and kwargs = "[]" and ?dh1.0 = ?dh1 and ?dh2.0 = ?dh2
        and cb' = "Some healthy"] f r0 s r a
    by simp
qed

text \<open>
  C3. The claim: for every decoded response with a false \<open>status\<close>, \<open>_receive\<close> with the
  data flag returns False, and so does \<open>getData\<close>. The code on a response whose only
  field is a false \<open>status\<close>: the lines that log \<open>response['errorCode']\<close> and
  \<open>response['errorDescr']\<close> stand before \<open>return False\<close> without a test for the keys, and
  \<open>_receive\<close> raises KeyError; \<open>getData\<close> returns nothing but passes the exception on.
\<close>

theorem status_false_without_error_code_raises:
  "handler_receive (Some healthy) True True (example_handler\<lparr>c_rx := [RxChunk bare_failure_text, RxQuiet]\<rparr>)
     = Raise (KeyError ''errorCode'')
         (example_handler\<lparr>c_rx := [], c_sleeps := 1, h_log := [EvReceive]\<rparr>)
   \<and> getData (Some healthy) ''Balance'' [] (example_session bare_failure_text)
     = Raise (KeyError ''errorCode'')
         ((example_session bare_failure_text)
            \<lparr>c_rx := [], c_tx := [], c_wire := [''getBalance''], c_sleeps := 2,
             h_log := [EvRequest [(''command'', PStr ''getBalance'')], EvReceive]\<rparr>)"
  by (simp add: getData_def handler_request.simps handler_receive.simps send_request_def
        request_dict_def send_def send_loop.simps receive_response_def receive_def
        check_status_def example_handler_def example_session_def example_decoder_def
        example_dumps_def balance_text_def failure_text_def bare_failure_text_def)

subsection \<open>The session token\<close>

lemma check_status_valid:
  "check_status True resp h = Return response h' \<Longrightarrow> truthy response \<Longrightarrow> \<exists>kvs. response = PDict kvs"
  by (cases resp) (auto simp: check_status_def split: if_splits sum.splits option.splits)

lemma handler_receive_once_valid:
  "handler_receive cb False True h = Return response h' \<Longrightarrow> truthy response
     \<Longrightarrow> \<exists>kvs. response = PDict kvs"
  by (auto simp: handler_receive_once split: outcome.splits if_splits dest: check_status_valid)

lemma handler_receive_valid:
  assumes "handler_receive cb retry True h = Return response h'" and "truthy response"
  shows "\<exists>kvs. response = PDict kvs"
proof (cases retry)
  case False
  then show ?thesis using assms handler_receive_once_valid [of cb h response h'] by simp
next
  case True
  then show ?thesis
    using assms(1) assms(2)
    by (subst (asm) handler_receive.simps)
       (auto split: outcome.splits if_splits dest: check_status_valid handler_receive_once_valid)
qed

text \<open>
  C4. Without a token (None or empty) \<open>getData\<close> and \<open>streamData\<close> return False and leave
  the handler as it was: nothing is sent or logged. With a token, when the request went out
  and \<open>_receive\<close> returned a checked response, that response is a dict and \<open>getData\<close>
  returns its \<open>returnData\<close>, or False when it has none.
\<close>

theorem session_token_required:
  fixes dh0 dh :: "'a data_handler_scheme" and sh :: "'b stream_handler_scheme"
  shows "(\<not> truthy (dh_ssid dh0) \<longrightarrow> getData cb command kwargs dh0 = Return (PBool False) dh0)
       \<and> (\<not> truthy ssid \<longrightarrow> streamData cb' ssid command kwargs sh = Return False sh)
       \<and> (truthy (dh_ssid dh)
            \<and> handler_request cb True (''get'' @ command) PNone
                  (if kwargs \<noteq> [] then Some [(''arguments'', PDict kwargs)] else None) PNone dh
                = Return True dh1
            \<and> handler_receive cb True True dh1 = Return response dh2 \<and> truthy response \<longrightarrow>
            (\<exists>fields. response = PDict fields
               \<and> getData cb command kwargs dh
                   = Return (case map_of fields ''returnData'' of Some v \<Rightarrow> v | None \<Rightarrow> PBool False) dh2))"
proof -
  have 3: "\<exists>fields. response = PDict fields
               \<and> getData cb command kwargs dh
                   = Return (case map_of fields ''returnData'' of Some v \<Rightarrow> v | None \<Rightarrow> PBool False) dh2"
    if a: "truthy (dh_ssid dh)"
      and b: "handler_request cb True (''get'' @ command) PNone
                  (if kwargs \<noteq> [] then Some [(''arguments'', PDict kwargs)] else None) PNone dh
                = Return True dh1"
      and c: "handler_receive cb True True dh1 = Return response dh2" and d: "truthy response"
  proof -
    obtain fields where f: "response = PDict fields"
      using handler_receive_valid [OF c d] by blast
    have "getData cb command kwargs dh
            = Return (case map_of fields ''returnData'' of Some v \<Rightarrow> v | None \<Rightarrow> PBool False) dh2"
    proof (cases "map_of fields ''returnData''")
      case None
      then have "''returnData'' \<notin> set (map fst fields)" by (simp add: map_of_eq_None_iff)
      then show ?thesis using a b c d f None by (simp add: getData_def)
    next
      case (Some v)
      then have "''returnData'' \<in> set (map fst fields)"
        by (metis map_of_eq_None_iff option.distinct(1) set_map)
      then show ?thesis using a b c d f Some by (simp add: getData_def)
    qed
    then show ?thesis using f by blast
  qed
  show ?thesis using 3 by (simp add: getData_def streamData_def)
qed

theorem session_token_required_witness:
  "\<not> truthy (dh_ssid logged_out_session)
   \<and> getData (Some healthy) ''Balance'' [] logged_out_session = Return (PBool False) logged_out_session
   \<and> \<not> truthy (PStr [])
   \<and> streamData (Some healthy) (PStr []) ''TickPrices'' [(''symbol'', PStr ''EURUSD'')] example_stream
       = Return False example_stream
   \<and> truthy (dh_ssid (example_session balance_text))
   \<and> getData (Some healthy) ''Balance'' [] (example_session balance_text)
       = Return (PInt 7)
           ((example_session balance_text)
              \<lparr>c_rx := [], c_tx := [], c_wire := [''getBalance''], c_sleeps := 2,
               h_log := [EvRequest [(''command'', PStr ''getBalance'')], EvReceive]\<rparr>)"
proof -
  let ?dh = "example_session balance_text"
  let ?dh1 = "?dh\<lparr>c_tx := [], c_wire := [''getBalance''], c_sleeps := 1,
                   h_log := [EvRequest [(''command'', PStr ''getBalance'')]]\<rparr>"
  let ?dh2 = "?dh\<lparr>c_rx := [], c_tx := [], c_wire := [''getBalance''], c_sleeps := 2,
                   h_log := [EvRequest [(''command'', PStr ''getBalance'')], EvReceive]\<rparr>"
  let ?response = "PDict [(''status'', PBool True), (''returnData'', PInt 7)]"
  have a: "\<not> truthy (dh_ssid logged_out_session)" "truthy (dh_ssid ?dh)"
    by (simp_all add: logged_out_session_def example_session_def)
  have b: "handler_request (Some healthy) True (''get'' @ ''Balance'') PNone
             (if [] \<noteq> ([] :: (string \<times> pyval) list) then Some [(''arguments'', PDict [])] else None)
             PNone ?dh = Return True ?dh1"
    by (subst handler_request.simps)
       (simp add: send_request_def request_dict_def send_def send_loop.simps example_session_def
          example_dumps_def)
  have c: "handler_receive (Some healthy) True True ?dh1 = Return ?response ?dh2"
    by (subst handler_receive.simps)
       (simp add: receive_response_def receive_def check_status_def example_session_def
          example_decoder_def balance_text_def)
  show ?thesis
    using session_token_required [where ?dh0.0 = logged_out_session and cb = "Some healthy"
        and command = "''Balance''" and kwargs = "[]" and ssid = "PStr []" and cb' = "Some healthy"
        and sh = example_stream and dh = ?dh and ?dh1.0 = ?dh1 and response = ?response
        and ?dh2.0 = ?dh2] a b c
      session_token_required [where ssid = "PStr []" and cb' = "Some healthy"
        and command = "''TickPrices''" and kwargs = "[(''symbol'', PStr ''EURUSD'')]"
        and sh = example_stream and ?dh0.0 = logged_out_session and dh = ?dh]
    by simp
qed

section \<open>Properties of the stream handler, the keepalive loop and the manager\<close>

lemmas example_defs = example_stream_def two_task_stream_def keepalive_task_def ticks_task_def
  example_decoder_def example_dumps_def balance_text_def failure_text_def bare_failure_text_def
  empty_data_text_def no_data_text_def example_session_def example_handler_def

text \<open>
  Whenever the count is one below the maximum and no data handler is active,
  \<open>_generate_StreamHandler\<close> leaves the count one above the maximum.
\<close>

lemma generate_StreamHandler_overshoots:
  assumes "m_connections m + 1 = m_max_connections m" and "avlb_DataHandler m = None"
  shows "m_connections (outcome_state (generate_StreamHandler (Inr dh) (Inr sh) m))
           = m_max_connections m + 1"
  using assms
  by (simp add: generate_StreamHandler_def provide_DataHandler_def generate_DataHandler_def
        on_data_def Let_def)

text \<open>
  C5. The claim: no allocation path pushes the connection count above the maximum. The
  code on a new manager with \<open>MAX_CONNECTIONS = 1\<close>: \<open>provide_StreamHandler\<close> passes the
  test with count 0, allocates a data handler for the stream handler and then the stream
  handler, and leaves the count at 2.
\<close>

theorem stream_allocation_exceeds_maximum:
  "m_connections (outcome_state (provide_StreamHandler (Inr (example_session balance_text))
       (Inr example_stream) empty_manager)) = 2
   \<and> m_max_connections (outcome_state (provide_StreamHandler (Inr (example_session balance_text))
       (Inr example_stream) empty_manager)) = 1"
  by (simp add: provide_StreamHandler_def avlb_StreamHandler_def generate_StreamHandler_def
        provide_DataHandler_def avlb_DataHandler_def generate_DataHandler_def on_data_def
        attach_stream_handler_def empty_manager_def Let_def example_session_def)

text \<open>
  \<open>endStream\<close> never returns: it raises, or it waits in its request. So the \<open>delete\<close> of a
  stream handler that is not marked deleted never returns either.
\<close>

lemma endStream_never_returns: "endStream cb inThread sh \<noteq> Return r sh'"
  by (auto simp: endStream_def Let_def split: option.splits list.splits outcome.splits)

lemma end_streams_never_returns: "keys \<noteq> [] \<Longrightarrow> end_streams cb keys sh \<noteq> Return r sh'"
  by (cases keys) (auto split: outcome.splits simp: endStream_never_returns)

lemma sh_teardown_never_returns: "sh_teardown cb sh \<noteq> Return u s"
proof -
  have "end_streams cb (streams_keys sh) sh \<noteq> Return u' s'" for u' s'
    by (rule end_streams_never_returns) (simp add: streams_keys_def)
  then show ?thesis
    by (cases "end_streams cb (streams_keys sh) sh") (auto simp: sh_teardown_def)
qed

lemma sh_delete_never_completes:
  assumes "w_stream w i = Some sh" and "\<not> sh_deleted sh"
  shows "sh_delete cb i w \<noteq> Return r w'"
proof -
  have "on_stream i (sh_teardown cb) w \<noteq> Return u w1" for u w1
    using assms(1) sh_teardown_never_returns [of cb sh]
    by (cases "sh_teardown cb sh") (auto simp: on_stream_def)
  then show ?thesis
    using assms by (cases "on_stream i (sh_teardown cb) w") (auto simp: sh_delete_def)
qed

text \<open>
  C6. The claim: a packet with an empty payload or without a \<open>data\<close> field ends the whole
  multiplexer, with \<open>endStream\<close> running to completion and unsubscribing every
  subscription. The code on a stream handler with two subscriptions: on a packet with empty
  \<open>data\<close> it sends the stop request of the first subscription and raises RuntimeError,
  with the second subscription still registered and never unsubscribed; on a packet
  without \<open>data\<close> it raises KeyError before \<open>endStream\<close> is called, with the stream flag
  still set.
\<close>

theorem read_loop_fault_does_not_end_all_streams:
  "readStream (Some healthy) 3 (two_task_stream empty_data_text)
     = Raise RuntimeError
        ((two_task_stream empty_data_text)
           \<lparr>c_rx := [], c_tx := [TxAccept 64], c_wire := [''stopKeepAlive''], c_sleeps := 1,
            h_log := [EvReceive, EvRequest [(''command'', PStr ''stopKeepAlive'')]],
            sh_tasks := [(1, ticks_task)], sh_stream := Some False\<rparr>)
   \<and> readStream (Some healthy) 3 (two_task_stream no_data_text)
     = Raise (KeyError ''data'') ((two_task_stream no_data_text)\<lparr>c_rx := [], h_log := [EvReceive]\<rparr>)"
  by (simp add: numeral_3_eq_3 handler_receive.simps handler_request.simps receive_response_def
        receive_def check_status_def endStream_def send_request_def request_dict_def send_def
        send_loop.simps example_defs)

text \<open>
  A second \<open>close\<close> after one that returned, and a second \<open>_stop_ping\<close> on a ping that was
  started, return True and change nothing.
\<close>

lemma close_twice:
  assumes "close c = Return r c1"
  shows "r = True \<and> close c1 = Return True c1"
  using assms by (auto simp: close_def split: option.splits bool.splits if_splits)

lemma stop_ping_twice:
  assumes "h_ping h \<noteq> None"
  shows "\<exists>h1. stop_ping inThread h = Return True h1 \<and> stop_ping inThread' h1 = Return True h1"
  using assms by (auto simp: stop_ping_def)

text \<open>
  C7. The claim: \<open>delete\<close> called twice never raises and the second call is a no-op that
  reports success. The code on a stream handler as its constructor leaves it: the first
  \<open>delete\<close> raises RuntimeError in \<open>endStream\<close>, before the ping is stopped, the socket
  closed or the handler marked deleted; the second \<open>delete\<close> raises UnboundLocalError.
\<close>

theorem stream_delete_raises:
  "sh_delete (Some healthy) 1 example_world
     = Raise RuntimeError
        (example_world\<lparr>w_stream := [1 \<mapsto> example_stream
           \<lparr>c_tx := [TxAccept 64], c_wire := [''stopKeepAlive''], c_sleeps := 1,
            h_log := [EvRequest [(''command'', PStr ''stopKeepAlive'')]],
            sh_tasks := [], sh_stream := Some False\<rparr>]\<rparr>)
   \<and> sh_delete (Some healthy) 1
        (example_world\<lparr>w_stream := [1 \<mapsto> example_stream
           \<lparr>c_tx := [TxAccept 64], c_wire := [''stopKeepAlive''], c_sleeps := 1,
            h_log := [EvRequest [(''command'', PStr ''stopKeepAlive'')]],
            sh_tasks := [], sh_stream := Some False\<rparr>]\<rparr>)
     = Raise UnboundLocalError
        (example_world\<lparr>w_stream := [1 \<mapsto> example_stream
           \<lparr>c_tx := [TxAccept 64], c_wire := [''stopKeepAlive''], c_sleeps := 1,
            h_log := [EvRequest [(''command'', PStr ''stopKeepAlive'')]],
            sh_tasks := [], sh_stream := Some False\<rparr>]\<rparr>)"
  by (simp add: sh_delete_def on_stream_def sh_teardown_def streams_keys_def endStream_def
        handler_request.simps send_request_def request_dict_def send_def send_loop.simps
        example_world_def example_defs)

text \<open>\<open>HandlerManager.delete\<close> sets \<open>_deleted\<close> and does nothing else, whatever it manages.\<close>

lemma delete_active_skips_all: "delete_active cb_dh cb_sh js m = Return () m"
  by (induction js) simp_all

lemma manager_delete_never_deletes:
  "manager_delete cb_dh cb_sh m
     = (if m_deleted m then Return (PBool True) m else Return PNone (m\<lparr>m_deleted := True\<rparr>))"
  by (simp add: manager_delete_def delete_active_skips_all)

text \<open>
  C8. The claim: \<open>HandlerManager.delete\<close> tears down every active data handler it
  registered and decrements the count for each. The code on a manager with one registered,
  active data handler: \<open>delete\<close> marks the manager deleted and changes nothing else; the
  data handler stays active and not deleted, and the count stays 1.
\<close>

theorem manager_delete_tears_nothing_down:
  "manager_delete (Some healthy) (Some healthy) example_manager
     = Return PNone (example_manager\<lparr>m_deleted := True\<rparr>)
   \<and> map_option dh_status (w_data example_manager 0) = Some (PStr ''active'')
   \<and> map_option dh_deleted (w_data example_manager 0) = Some False
   \<and> m_connections example_manager = 1"
  by (simp add: manager_delete_def example_manager_def example_session_def)

text \<open>The ping request of a loop started with a token holds the command only.\<close>

lemma ping_request_without_token:
  "truthy ssid \<Longrightarrow> request_dict ''ping'' (if \<not> truthy ssid then ssid else PNone) None PNone
     = [(''command'', PStr ''ping'')]"
  by (simp add: request_dict_def)

text \<open>
  C9. The claim: a keepalive loop started with a stream token sends that token as
  \<open>streamSessionId\<close> with every ping. The code: \<open>_start_ping\<close> with the token hands it to
  the loop, and the ping the loop sends when it is due holds the command only; the loop
  awaits no response.
\<close>

theorem stream_ping_carries_no_token:
  "start_ping (PStr ''token'') (example_handler\<lparr>c_tx := [TxAccept 64]\<rparr>)
     = Return True (example_handler\<lparr>c_tx := [TxAccept 64], h_ping := Some True,
                                     h_ping_ssid := PStr ''token''\<rparr>)
   \<and> send_ping (Some healthy) (PStr ''token'') 0 [(False, 600), (False, 1), (True, 1)]
        (example_handler\<lparr>c_tx := [TxAccept 64], h_ping := Some True, h_ping_ssid := PStr ''token''\<rparr>)
     = Return PNone
        (example_handler\<lparr>c_tx := [], c_wire := [''ping''], c_sleeps := 3,
           h_ping := Some False, h_ping_ssid := PStr ''token'',
           h_log := [EvRequest [(''command'', PStr ''ping'')]]\<rparr>)"
  by (simp add: start_ping_def ping_interval_def handler_request.simps send_request_def
        request_dict_def send_def send_loop.simps example_defs)

end
